theory Spec2Isabelle
  imports Complex_Main
begin

section \<open>JavaScript values as the engine sees them\<close>

text \<open>
  \<^verbatim>\<open>mcp-server.js\<close> receives whatever \<^verbatim>\<open>JSON.parse\<close> returns for a line and
  applies to it property reads, truthiness tests, strict comparison with string
  literals, template-literal conversion and array spread. Values are therefore modelled
  as JSON values plus \<^verbatim>\<open>undefined\<close> (the result of reading a missing property).
  Numbers are integers: the engine never computes with a number of a request, it only
  tests, echoes and prints it, and how a number prints is left to the runtime (a
  parameter of the model). A string is a list of characters, one per UTF-16 code
  unit, so that \<open>length\<close> is JavaScript's \<^verbatim>\<open>.length\<close>. An object is an association list
  with one entry per own property; a read returns the first entry of a key.
\<close>

datatype json =
    JUndefined
  | JNull
  | JBool bool
  | JNum int
  | JStr string
  | JArr "json list"
  | JObj "(string \<times> json) list"

type_synonym jsobject = "(string \<times> json) list"

text \<open>A thrown value: \<^verbatim>\<open>new Error(msg)\<close>, or a \<^verbatim>\<open>TypeError\<close> of the runtime (whose
  message text is the runtime's own; the model carries a description in its place).\<close>

datatype js_error = JsError string | JsTypeError string

fun message_of :: "js_error \<Rightarrow> string" where
  "message_of (JsError m) = m"
| "message_of (JsTypeError m) = m"

text \<open>\<^verbatim>\<open>if (v)\<close>, \<^verbatim>\<open>!v\<close>, \<^verbatim>\<open>a || b\<close>: JavaScript's ToBoolean.\<close>

fun truthy :: "json \<Rightarrow> bool" where
  "truthy JUndefined = False"
| "truthy JNull = False"
| "truthy (JBool b) = b"
| "truthy (JNum n) = (n \<noteq> 0)"
| "truthy (JStr s) = (s \<noteq> [])"
| "truthy (JArr xs) = True"
| "truthy (JObj kvs) = True"

text \<open>\<^verbatim>\<open>a || b\<close>\<close>

definition js_or :: "json \<Rightarrow> json \<Rightarrow> json" where
  "js_or a b = (if truthy a then a else b)"

fun lookup :: "jsobject \<Rightarrow> string \<Rightarrow> json" where
  "lookup [] k = JUndefined"
| "lookup ((k', v) # kvs) k = (if k' = k then v else lookup kvs k)"

text \<open>\<^verbatim>\<open>obj.k = v\<close>: overwrite the property in place, or add it at the end.\<close>

fun assign :: "jsobject \<Rightarrow> string \<Rightarrow> json \<Rightarrow> jsobject" where
  "assign [] k v = [(k, v)]"
| "assign ((k', v') # kvs) k v =
     (if k' = k then (k, v) # kvs else (k', v') # assign kvs k v)"

text \<open>
  \<^verbatim>\<open>v.k\<close> and the destructuring \<^verbatim>\<open>const { k } = v\<close>. Reading a property of
  \<^verbatim>\<open>undefined\<close> or \<^verbatim>\<open>null\<close> throws. The engine reads only \<^verbatim>\<open>jsonrpc\<close>, \<^verbatim>\<open>id\<close>,
  \<^verbatim>\<open>method\<close>, \<^verbatim>\<open>params\<close>, \<^verbatim>\<open>name\<close>, \<^verbatim>\<open>input\<close>, the tool parameters, \<^verbatim>\<open>tokens\<close>
  and \<^verbatim>\<open>length\<close>; of these only \<^verbatim>\<open>length\<close> exists on strings and arrays, and none is
  inherited by a plain object, a number or a boolean.
\<close>

fun getProp :: "json \<Rightarrow> string \<Rightarrow> js_error + json" where
  "getProp JUndefined k = Inl (JsTypeError (''Cannot read properties of undefined (reading '' @ k @ '')''))"
| "getProp JNull k = Inl (JsTypeError (''Cannot read properties of null (reading '' @ k @ '')''))"
| "getProp (JBool b) k = Inr JUndefined"
| "getProp (JNum n) k = Inr JUndefined"
| "getProp (JStr s) k = Inr (if k = ''length'' then JNum (int (length s)) else JUndefined)"
| "getProp (JArr xs) k = Inr (if k = ''length'' then JNum (int (length xs)) else JUndefined)"
| "getProp (JObj kvs) k = Inr (lookup kvs k)"

subsection \<open>Template literals\<close>

definition has_own :: "jsobject \<Rightarrow> string \<Rightarrow> bool" where
  "has_own kvs k = (k \<in> set (map fst kvs))"

text \<open>
  \<^verbatim>\<open>`${v}`\<close>: ToString. A number is printed by the runtime's Number-to-string conversion
  (decimal digits for the small integers, exponent form from \<^verbatim>\<open>1e21\<close> on), which is the
  parameter \<open>print\<close>. An array joins the conversions of its elements with commas,
  \<^verbatim>\<open>null\<close> and \<^verbatim>\<open>undefined\<close> elements giving the empty string. A plain object gives
  \<^verbatim>\<open>[object Object]\<close> through the inherited \<^verbatim>\<open>toString\<close>; when it has an own property
  named \<^verbatim>\<open>toString\<close> (never callable in a parsed value) the conversion finds no
  primitive and throws a TypeError.
\<close>

fun to_string :: "(int \<Rightarrow> string) \<Rightarrow> json \<Rightarrow> js_error + string"
  and join_elems :: "(int \<Rightarrow> string) \<Rightarrow> json list \<Rightarrow> js_error + string" where
  "to_string print JUndefined = Inr ''undefined''"
| "to_string print JNull = Inr ''null''"
| "to_string print (JBool b) = Inr (if b then ''true'' else ''false'')"
| "to_string print (JNum n) = Inr (print n)"
| "to_string print (JStr s) = Inr s"
| "to_string print (JArr xs) = join_elems print xs"
| "to_string print (JObj kvs) =
     (if has_own kvs ''toString''
      then Inl (JsTypeError ''Cannot convert object to primitive value'')
      else Inr ''[object Object]'')"
| "join_elems print [] = Inr []"
| "join_elems print (x # xs) =
     (case (if x = JNull \<or> x = JUndefined then Inr [] else to_string print x) of
        Inl e \<Rightarrow> Inl e
      | Inr s \<Rightarrow>
          (if xs = [] then Inr s
           else (case join_elems print xs of
                   Inl e \<Rightarrow> Inl e
                 | Inr r \<Rightarrow> Inr (s @ '','' @ r))))"


text \<open>\<^verbatim>\<open>[...v]\<close>: an array spreads to its elements, a string to its characters;
  \<^verbatim>\<open>undefined\<close>, \<^verbatim>\<open>null\<close>, numbers, booleans and plain objects are not iterable.\<close>

fun spread :: "json \<Rightarrow> js_error + json list" where
  "spread (JArr xs) = Inr xs"
| "spread (JStr s) = Inr (map (\<lambda>ch. JStr [ch]) s)"
| "spread v = Inl (JsTypeError ''value is not iterable'')"

section \<open>Collaborators, server state and the transport writer\<close>

text \<open>
  The tree \<^verbatim>\<open>getDirectoryStructure\<close> of \<^verbatim>\<open>main.js\<close> builds: a file is
  \<^verbatim>\<open>{name, path, type: "file", selected}\<close>, a directory
  \<^verbatim>\<open>{name, path, type: "directory", children, selected}\<close>.
\<close>

datatype dir_item = FileItem string string | DirItem string string "dir_item list"

fun item_json :: "dir_item \<Rightarrow> json" where
  "item_json (FileItem n p) =
     JObj [(''name'', JStr n), (''path'', JStr p), (''type'', JStr ''file''),
           (''selected'', JBool True)]"
| "item_json (DirItem n p cs) =
     JObj [(''name'', JStr n), (''path'', JStr p), (''type'', JStr ''directory''),
           (''children'', JArr (map item_json cs)), (''selected'', JBool True)]"

text \<open>The external packaging tool; \<^verbatim>\<open>this.repoMixIntegration\<close> may be \<^verbatim>\<open>null\<close>.\<close>

record repomix =
  processRemoteRepository :: "json \<Rightarrow> json \<Rightarrow> json \<Rightarrow> js_error + string"
  processLocalRepositoryWithSecurity :: "json \<Rightarrow> json \<Rightarrow> js_error + string"

text \<open>
  What \<^verbatim>\<open>countOpenAITokens\<close> hands to \<^verbatim>\<open>tiktoken.getEncoding\<close>: the name of an encoding
  or, when the model name is one that every object inherits, that inherited member
  (which the table lookup \<^verbatim>\<open>modelToEncoding[model]\<close> then returns).
\<close>

datatype encoding = EncodingName string | PrototypeMember string

text \<open>
  Everything the engine calls but does not define. Each collaborator either produces a
  value or fails with an error. \<open>tiktoken\<close> is \<open>None\<close> when the module failed to load;
  otherwise it maps what \<^verbatim>\<open>getEncoding\<close> is given and a text to the number of tokens.
  \<open>axios_post\<close> is the tokenize request, returning \<^verbatim>\<open>response.data\<close>.
  \<open>ceil_quarter_coerced\<close> is \<^verbatim>\<open>Math.ceil(v / 4)\<close> of the runtime for a \<open>v\<close> that is
  not a number (the numeric coercion of such values is not modelled).
  \<open>number_to_string\<close> is the runtime's conversion of a number to a string.
\<close>

record env =
  getDirectoryStructure :: "json \<Rightarrow> json \<Rightarrow> js_error + dir_item"
  generateMarkdownContent :: "json \<Rightarrow> json \<Rightarrow> js_error + string"
  repoMixIntegration :: "repomix option"
  tiktoken :: "(encoding \<Rightarrow> json \<Rightarrow> js_error + nat) option"
  axios_post :: "json \<Rightarrow> json \<Rightarrow> js_error + json"
  ceil_quarter_coerced :: "json \<Rightarrow> js_error + json"
  number_to_string :: "int \<Rightarrow> string"

text \<open>The body of a response: \<^verbatim>\<open>result\<close>, or \<^verbatim>\<open>error: {code, message}\<close>
  (\<^verbatim>\<open>data\<close> is never passed).\<close>

datatype payload = Result json | Failure int string

text \<open>
  What the engine does to the outside, in the order it does it: a message written by
  \<^verbatim>\<open>sendMessage\<close> (with its \<^verbatim>\<open>id\<close>), and each call of a collaborator with its
  arguments.
\<close>

datatype event =
    Send json payload
  | ScanCall json json
  | AssembleCall json json
  | PackRemoteCall json json json
  | PackLocalCall json json
  | EncodeCall encoding json
  | TokenizeCall json json

record server =
  settings :: jsobject
  nextId :: int
  trace :: "event list"

definition emit :: "event \<Rightarrow> server \<Rightarrow> server" where
  "emit ev s = s\<lparr>trace := trace s @ [ev]\<rparr>"

definition sendResult :: "json \<Rightarrow> json \<Rightarrow> server \<Rightarrow> server" where
  "sendResult ident res s = emit (Send ident (Result res)) s"

definition sendErrorResponse :: "json \<Rightarrow> int \<Rightarrow> string \<Rightarrow> server \<Rightarrow> server" where
  "sendErrorResponse ident code msg s = emit (Send ident (Failure code msg)) s"

text \<open>\<^verbatim>\<open>return this.nextId++\<close>\<close>

definition getNextId :: "server \<Rightarrow> json \<times> server" where
  "getNextId s = (JNum (nextId s), s\<lparr>nextId := nextId s + 1\<rparr>)"

definition initialize_result :: json where
  "initialize_result =
     JObj [(''serverName'', JStr ''Markdown Generator MCP Server''),
           (''serverVersion'', JStr ''1.0.0''),
           (''protocolVersion'', JStr ''0.1''),
           (''capabilities'',
              JObj [(''tools'', JBool True), (''resources'', JBool True),
                    (''prompts'', JBool False), (''roots'', JBool False)])]"

text \<open>\<^verbatim>\<open>sendInitializeResult(id = null)\<close>: the default replaces \<^verbatim>\<open>undefined\<close> only;
  the body sends to \<^verbatim>\<open>id || this.getNextId()\<close>.\<close>

definition sendInitializeResult :: "json \<Rightarrow> server \<Rightarrow> server" where
  "sendInitializeResult ident0 s =
     (let ident = (if ident0 = JUndefined then JNull else ident0)
      in if truthy ident then sendResult ident initialize_result s
         else (case getNextId s of (n, s') \<Rightarrow> sendResult n initialize_result s'))"

text \<open>\<^verbatim>\<open>start()\<close>: the push at startup.\<close>

definition start :: "server \<Rightarrow> server" where
  "start s = sendInitializeResult JUndefined s"

section \<open>Token counters and the stats helper\<close>

definition modelToEncoding :: "(string \<times> string) list" where
  "modelToEncoding =
     [(''gpt-4o'', ''cl100k_base''), (''gpt-4'', ''cl100k_base''),
      (''gpt-3.5-turbo'', ''cl100k_base''), (''text-embedding-ada-002'', ''cl100k_base''),
      (''gpt-3'', ''p50k_base''), (''text-davinci-003'', ''p50k_base''),
      (''text-davinci-002'', ''p50k_base''), (''davinci'', ''p50k_base'')]"

text \<open>The names every object inherits from \<^verbatim>\<open>Object.prototype\<close>: for these,
  \<^verbatim>\<open>modelToEncoding[model]\<close> is the inherited member, which is truthy.\<close>

definition object_prototype_members :: "string list" where
  "object_prototype_members =
     [''constructor'', ''__defineGetter__'', ''__defineSetter__'', ''hasOwnProperty'',
      ''__lookupGetter__'', ''__lookupSetter__'', ''isPrototypeOf'', ''propertyIsEnumerable'',
      ''toString'', ''valueOf'', ''__proto__'', ''toLocaleString'']"

text \<open>\<^verbatim>\<open>countOpenAITokens(text, model)\<close>: \<open>-1\<close> when the tokenizer is missing or throws.\<close>

definition countOpenAITokens :: "env \<Rightarrow> json \<Rightarrow> string \<Rightarrow> server \<Rightarrow> json \<times> server" where
  "countOpenAITokens c text model s =
     (case tiktoken c of
        None \<Rightarrow> (JNum (- 1), s)
      | Some encode \<Rightarrow>
          (let encoding = (case map_of modelToEncoding model of
                             Some e \<Rightarrow> EncodingName e
                           | None \<Rightarrow>
                               if model \<in> set object_prototype_members
                               then PrototypeMember model
                               else EncodingName ''cl100k_base'');
               s' = emit (EncodeCall encoding text) s
           in case encode encoding text of
                Inl err \<Rightarrow> (JNum (- 1), s')
              | Inr n \<Rightarrow> (JNum (int n), s')))"

text \<open>\<^verbatim>\<open>Math.ceil(text.length / 4)\<close>, and \<open>-1\<close> when that throws.\<close>

definition countClaudeTokensApprox :: "env \<Rightarrow> json \<Rightarrow> json" where
  "countClaudeTokensApprox c text =
     (case getProp text ''length'' of
        Inl err \<Rightarrow> JNum (- 1)
      | Inr (JNum n) \<Rightarrow> JNum \<lceil>of_int n / (4 :: rat)\<rceil>
      | Inr v \<Rightarrow> (case ceil_quarter_coerced c v of Inl err \<Rightarrow> JNum (- 1) | Inr r \<Rightarrow> r))"

text \<open>\<^verbatim>\<open>countClaudeTokensWithAPI(text, apiKey)\<close>: the approximation unless the
  request succeeds and its data carries \<^verbatim>\<open>tokens\<close>.\<close>

definition countClaudeTokensWithAPI :: "env \<Rightarrow> json \<Rightarrow> json \<Rightarrow> server \<Rightarrow> json \<times> server" where
  "countClaudeTokensWithAPI c text apiKey s =
     (if \<not> truthy apiKey then (countClaudeTokensApprox c text, s)
      else
        (let s' = emit (TokenizeCall text apiKey) s
         in case axios_post c text apiKey of
              Inl err \<Rightarrow> (countClaudeTokensApprox c text, s')
            | Inr data \<Rightarrow>
                (if \<not> truthy data then (countClaudeTokensApprox c text, s')
                 else (case getProp data ''tokens'' of
                         Inl err \<Rightarrow> (countClaudeTokensApprox c text, s')
                       | Inr tokens \<Rightarrow>
                           (if \<not> truthy tokens then (countClaudeTokensApprox c text, s')
                            else (case getProp tokens ''length'' of
                                    Inl err \<Rightarrow> (countClaudeTokensApprox c text, s')
                                  | Inr n \<Rightarrow> (n, s')))))))"

text \<open>
  \<^verbatim>\<open>calculateStats(text)\<close>. \<^verbatim>\<open>text.length\<close> is read outside any \<^verbatim>\<open>try\<close>; the two
  counters cannot throw, so the \<open>-1\<close> defaults of the source are never what is returned.
\<close>

definition calculateStats :: "env \<Rightarrow> json \<Rightarrow> server \<Rightarrow> (js_error + json) \<times> server" where
  "calculateStats c text s =
     (case getProp text ''length'' of
        Inl err \<Rightarrow> (Inl err, s)
      | Inr characterCount \<Rightarrow>
          (case countOpenAITokens c text ''gpt-4o'' s of
             (openAiTokens, s1) \<Rightarrow>
               (case (let apiKey = lookup (settings s1) ''anthropicApiKey''
                      in if truthy apiKey then countClaudeTokensWithAPI c text apiKey s1
                         else (countClaudeTokensApprox c text, s1)) of
                  (claudeTokens, s2) \<Rightarrow>
                    (Inr (JObj [(''characterCount'', characterCount),
                                (''openAiTokens'', openAiTokens),
                                (''claudeTokens'', claudeTokens)]), s2))))"


section \<open>Tool handlers\<close>

text \<open>\<^verbatim>\<open>collectFilePaths\<close>: the paths of the files of a tree, in the order of the walk.\<close>

fun collectFilePaths :: "dir_item \<Rightarrow> string list" where
  "collectFilePaths (FileItem n p) = [p]"
| "collectFilePaths (DirItem n p cs) = concat (map collectFilePaths cs)"

text \<open>The \<^verbatim>\<open>try\<close> block of \<^verbatim>\<open>handleGenerateMarkdown\<close>. The scan receives
  \<^verbatim>\<open>this.settings.ignorePatterns\<close> as it is when the call is made.\<close>

definition generateMarkdown_try ::
  "env \<Rightarrow> json \<Rightarrow> json \<Rightarrow> server \<Rightarrow> (js_error + json) \<times> server" where
  "generateMarkdown_try c folderPath selectedPaths s =
     (case (if truthy selectedPaths then (Inr selectedPaths, s)
            else
              (let patterns = lookup (settings s) ''ignorePatterns'';
                   s' = emit (ScanCall folderPath patterns) s
               in case getDirectoryStructure c folderPath patterns of
                    Inl err \<Rightarrow> (Inl err, s')
                  | Inr directoryStructure \<Rightarrow>
                      (Inr (JArr (map JStr (collectFilePaths directoryStructure))), s'))) of
        (Inl err, s1) \<Rightarrow> (Inl err, s1)
      | (Inr pathsToProcess, s1) \<Rightarrow>
          (let s2 = emit (AssembleCall folderPath pathsToProcess) s1
           in case generateMarkdownContent c folderPath pathsToProcess of
                Inl err \<Rightarrow> (Inl err, s2)
              | Inr markdownContent \<Rightarrow>
                  (case calculateStats c (JStr markdownContent) s2 of
                     (Inl err, s3) \<Rightarrow> (Inl err, s3)
                   | (Inr stats, s3) \<Rightarrow>
                       (Inr (JObj [(''success'', JBool True),
                                   (''markdownContent'', JStr markdownContent),
                                   (''stats'', stats)]), s3))))"

text \<open>The \<^verbatim>\<open>finally\<close> block of \<^verbatim>\<open>handleGenerateMarkdown\<close>.\<close>

definition restore_patterns :: "json \<Rightarrow> json \<Rightarrow> server \<Rightarrow> server" where
  "restore_patterns ignorePatterns originalIgnorePatterns s =
     (if truthy ignorePatterns \<and> truthy originalIgnorePatterns
      then s\<lparr>settings := assign (settings s) ''ignorePatterns'' originalIgnorePatterns\<rparr>
      else s)"

text \<open>
  \<^verbatim>\<open>handleGenerateMarkdown(input)\<close>: the destructuring, the \<^verbatim>\<open>folderPath\<close> check,
  the installation of the override (a copy of the current patterns is kept), the
  \<^verbatim>\<open>try\<close> block, and the \<^verbatim>\<open>finally\<close> that puts the copy back.
\<close>

definition handleGenerateMarkdown ::
  "env \<Rightarrow> json \<Rightarrow> server \<Rightarrow> (js_error + json) \<times> server" where
  "handleGenerateMarkdown c input s =
     (case getProp input ''folderPath'' of Inl err \<Rightarrow> (Inl err, s) | Inr folderPath \<Rightarrow>
      case getProp input ''selectedPaths'' of Inl err \<Rightarrow> (Inl err, s) | Inr selectedPaths \<Rightarrow>
      case getProp input ''ignorePatterns'' of Inl err \<Rightarrow> (Inl err, s) | Inr ignorePatterns \<Rightarrow>
        if \<not> truthy folderPath then (Inl (JsError ''folderPath is required''), s)
        else
          (case (if truthy ignorePatterns
                 then (case spread (lookup (settings s) ''ignorePatterns'') of
                         Inl err \<Rightarrow> Inl err
                       | Inr copy \<Rightarrow>
                           Inr (JArr copy,
                                s\<lparr>settings := assign (settings s) ''ignorePatterns'' ignorePatterns\<rparr>))
                 else Inr (JUndefined, s)) of
             Inl err \<Rightarrow> (Inl err, s)
           | Inr (originalIgnorePatterns, s1) \<Rightarrow>
               (case generateMarkdown_try c folderPath selectedPaths s1 of
                  (outcome, s2) \<Rightarrow>
                    (outcome, restore_patterns ignorePatterns originalIgnorePatterns s2))))"

text \<open>\<^verbatim>\<open>handleCountTokens(input)\<close>: \<^verbatim>\<open>model\<close> is destructured and not used again.\<close>

definition handleCountTokens ::
  "env \<Rightarrow> json \<Rightarrow> server \<Rightarrow> (js_error + json) \<times> server" where
  "handleCountTokens c input s =
     (case getProp input ''text'' of Inl err \<Rightarrow> (Inl err, s) | Inr text \<Rightarrow>
      case getProp input ''model'' of Inl err \<Rightarrow> (Inl err, s) | Inr model \<Rightarrow>
        if \<not> truthy text then (Inl (JsError ''text is required''), s)
        else (case calculateStats c text s of
                (Inl err, s') \<Rightarrow> (Inl err, s')
              | (Inr stats, s') \<Rightarrow>
                  (Inr (JObj [(''success'', JBool True), (''stats'', stats)]), s')))"

definition handleGetDirectoryStructure ::
  "env \<Rightarrow> json \<Rightarrow> server \<Rightarrow> (js_error + json) \<times> server" where
  "handleGetDirectoryStructure c input s =
     (case getProp input ''folderPath'' of Inl err \<Rightarrow> (Inl err, s) | Inr folderPath \<Rightarrow>
      case getProp input ''ignorePatterns'' of Inl err \<Rightarrow> (Inl err, s) | Inr ignorePatterns \<Rightarrow>
        if \<not> truthy folderPath then (Inl (JsError ''folderPath is required''), s)
        else
          (let patternsToUse = js_or ignorePatterns (lookup (settings s) ''ignorePatterns'');
               s' = emit (ScanCall folderPath patternsToUse) s
           in case getDirectoryStructure c folderPath patternsToUse of
                Inl err \<Rightarrow> (Inl err, s')
              | Inr directoryStructure \<Rightarrow>
                  (Inr (JObj [(''success'', JBool True),
                              (''directoryStructure'', item_json directoryStructure)]), s')))"

text \<open>A destructuring default, \<^verbatim>\<open>{ k = d } = input\<close>, applies to \<^verbatim>\<open>undefined\<close> only.\<close>

definition with_default :: "json \<Rightarrow> json \<Rightarrow> json" where
  "with_default v d = (if v = JUndefined then d else v)"

text \<open>
  \<^verbatim>\<open>handlePackRemoteRepository(input)\<close>. The \<^verbatim>\<open>console.log\<close> before the \<^verbatim>\<open>try\<close>
  converts \<^verbatim>\<open>repoUrl\<close> in a template, which can throw; failures inside the \<^verbatim>\<open>try\<close>
  are rethrown with a prefixed message.
\<close>

definition handlePackRemoteRepository ::
  "env \<Rightarrow> json \<Rightarrow> server \<Rightarrow> (js_error + json) \<times> server" where
  "handlePackRemoteRepository c input s =
     (case repoMixIntegration c of
        None \<Rightarrow> (Inl (JsError ''RepoMix integration not initialized''), s)
      | Some rm \<Rightarrow>
         (case getProp input ''repoUrl'' of Inl err \<Rightarrow> (Inl err, s) | Inr repoUrl \<Rightarrow>
          case getProp input ''securityCheck'' of Inl err \<Rightarrow> (Inl err, s) | Inr sc \<Rightarrow>
          case getProp input ''style'' of Inl err \<Rightarrow> (Inl err, s) | Inr st \<Rightarrow>
            (let securityCheck = with_default sc (JBool False);
                 style = with_default st (JStr ''markdown'')
             in if \<not> truthy repoUrl then (Inl (JsError ''Missing repoUrl parameter''), s)
                else (case to_string (number_to_string c) repoUrl of
                        Inl err \<Rightarrow> (Inl err, s)
                      | Inr logged \<Rightarrow>
                          (let s1 = emit (PackRemoteCall repoUrl securityCheck style) s
                           in case (case processRemoteRepository rm repoUrl securityCheck style of
                                      Inl err \<Rightarrow> (Inl err, s1)
                                    | Inr content \<Rightarrow>
                                        (case calculateStats c (JStr content) s1 of
                                           (Inl err, s2) \<Rightarrow> (Inl err, s2)
                                         | (Inr stats, s2) \<Rightarrow>
                                             (Inr (JObj [(''content'', JStr content),
                                                         (''stats'', stats)]), s2))) of
                                (Inl err, s3) \<Rightarrow>
                                  (Inl (JsError (''Error processing remote repository: ''
                                                 @ message_of err)), s3)
                              | (Inr r, s3) \<Rightarrow> (Inr r, s3))))))"

definition handleProcessWithSecurity ::
  "env \<Rightarrow> json \<Rightarrow> server \<Rightarrow> (js_error + json) \<times> server" where
  "handleProcessWithSecurity c input s =
     (case repoMixIntegration c of
        None \<Rightarrow> (Inl (JsError ''RepoMix integration not initialized''), s)
      | Some rm \<Rightarrow>
         (case getProp input ''folderPath'' of Inl err \<Rightarrow> (Inl err, s) | Inr folderPath \<Rightarrow>
          case getProp input ''style'' of Inl err \<Rightarrow> (Inl err, s) | Inr st \<Rightarrow>
            (let style = with_default st (JStr ''markdown'')
             in if \<not> truthy folderPath then (Inl (JsError ''Missing folderPath parameter''), s)
                else (case to_string (number_to_string c) folderPath of
                        Inl err \<Rightarrow> (Inl err, s)
                      | Inr logged \<Rightarrow>
                          (let s1 = emit (PackLocalCall folderPath style) s
                           in case (case processLocalRepositoryWithSecurity rm folderPath style of
                                      Inl err \<Rightarrow> (Inl err, s1)
                                    | Inr content \<Rightarrow>
                                        (case calculateStats c (JStr content) s1 of
                                           (Inl err, s2) \<Rightarrow> (Inl err, s2)
                                         | (Inr stats, s2) \<Rightarrow>
                                             (Inr (JObj [(''content'', JStr content),
                                                         (''stats'', stats)]), s2))) of
                                (Inl err, s3) \<Rightarrow>
                                  (Inl (JsError (''Error processing with security: ''
                                                 @ message_of err)), s3)
                              | (Inr r, s3) \<Rightarrow> (Inr r, s3))))))"


section \<open>The capability registry\<close>

definition string_prop :: "string \<Rightarrow> json" where
  "string_prop d = JObj [(''type'', JStr ''string''), (''description'', JStr d)]"

definition string_array_prop :: "string \<Rightarrow> json" where
  "string_array_prop d =
     JObj [(''type'', JStr ''array''), (''items'', JObj [(''type'', JStr ''string'')]),
           (''description'', JStr d)]"

definition style_prop :: json where
  "style_prop =
     JObj [(''type'', JStr ''string''),
           (''description'',
              JStr ''Output style: 'markdown', 'plain', or 'xml' (default: 'markdown')''),
           (''enum'', JArr [JStr ''markdown'', JStr ''plain'', JStr ''xml''])]"

definition tool_descriptor :: "string \<Rightarrow> string \<Rightarrow> jsobject \<Rightarrow> string list \<Rightarrow> json" where
  "tool_descriptor n d props req =
     JObj [(''name'', JStr n), (''description'', JStr d),
           (''inputSchema'',
              JObj [(''type'', JStr ''object''), (''properties'', JObj props),
                    (''required'', JArr (map JStr req))])]"

text \<open>The array \<^verbatim>\<open>tools\<close> of \<^verbatim>\<open>handleToolsList\<close>.\<close>

definition tools :: "json list" where
  "tools =
     [tool_descriptor ''generate_markdown''
        ''Generates markdown documentation from source code in a specified folder''
        [(''folderPath'', string_prop ''Path to the folder containing source code''),
         (''selectedPaths'',
            string_array_prop ''Optional list of specific file paths to include''),
         (''ignorePatterns'', string_array_prop ''Optional list of patterns to ignore'')]
        [''folderPath''],
      tool_descriptor ''pack_remote_repository''
        ''Process a remote Git repository and generate markdown documentation''
        [(''repoUrl'',
            string_prop ''URL of the repository to process (e.g., 'owner/repo' or full URL)''),
         (''securityCheck'',
            JObj [(''type'', JStr ''boolean''),
                  (''description'',
                     JStr ''Whether to perform security checks (default: false)'')]),
         (''style'', style_prop)]
        [''repoUrl''],
      tool_descriptor ''process_with_security''
        ''Process a local repository with security checks to identify and filter sensitive information''
        [(''folderPath'', string_prop ''Path to the folder containing source code''),
         (''style'', style_prop)]
        [''folderPath''],
      tool_descriptor ''count_tokens''
        ''Counts tokens in a text string using various tokenizers''
        [(''text'', string_prop ''The text to count tokens for''),
         (''model'',
            JObj [(''type'', JStr ''string''),
                  (''enum'', JArr [JStr ''gpt-4o'', JStr ''claude'']),
                  (''description'', JStr ''The model to use for token counting'')])]
        [''text''],
      tool_descriptor ''get_directory_structure''
        ''Returns the directory structure for a given folder path''
        [(''folderPath'', string_prop ''Path to the folder to scan''),
         (''ignorePatterns'', string_array_prop ''Optional list of patterns to ignore'')]
        [''folderPath'']]"

text \<open>The array \<^verbatim>\<open>resources\<close> of \<^verbatim>\<open>handleResourcesList\<close>.\<close>

definition resources :: "json list" where
  "resources =
     [JObj [(''name'', JStr ''settings''),
            (''description'', JStr ''Current settings for the Markdown Generator''),
            (''schema'',
               JObj [(''type'', JStr ''object''),
                     (''properties'',
                        JObj [(''ignorePatterns'',
                                 string_array_prop ''Patterns to ignore when generating markdown''),
                              (''anthropicApiKey'',
                                 string_prop ''Anthropic API key for Claude token counting'')])])]]"

section \<open>Method handlers and the dispatcher\<close>

text \<open>A method handler either completes or throws; it leaves the server changed.\<close>

type_synonym completion = "(js_error + unit) \<times> server"

definition handleToolsList :: "json \<Rightarrow> server \<Rightarrow> completion" where
  "handleToolsList message s =
     (case getProp message ''id'' of
        Inl err \<Rightarrow> (Inl err, s)
      | Inr ident \<Rightarrow> (Inr (), sendResult ident (JObj [(''tools'', JArr tools)]) s))"

definition handleResourcesList :: "json \<Rightarrow> server \<Rightarrow> completion" where
  "handleResourcesList message s =
     (case getProp message ''id'' of
        Inl err \<Rightarrow> (Inl err, s)
      | Inr ident \<Rightarrow> (Inr (), sendResult ident (JObj [(''resources'', JArr resources)]) s))"

text \<open>The \<^verbatim>\<open>switch (name)\<close> of \<^verbatim>\<open>handleToolsCall\<close>; \<open>None\<close> is its \<^verbatim>\<open>default\<close>.\<close>

definition tool_switch ::
  "env \<Rightarrow> json \<Rightarrow> json \<Rightarrow> server \<Rightarrow> ((js_error + json) \<times> server) option" where
  "tool_switch c name input s =
     (if name = JStr ''generate_markdown'' then Some (handleGenerateMarkdown c input s)
      else if name = JStr ''pack_remote_repository'' then Some (handlePackRemoteRepository c input s)
      else if name = JStr ''process_with_security'' then Some (handleProcessWithSecurity c input s)
      else if name = JStr ''count_tokens'' then Some (handleCountTokens c input s)
      else if name = JStr ''get_directory_structure'' then Some (handleGetDirectoryStructure c input s)
      else None)"

text \<open>
  \<^verbatim>\<open>handleToolsCall(message)\<close>. Whatever is thrown inside the \<^verbatim>\<open>try\<close>, by a tool
  handler or by the template of the \<^verbatim>\<open>default\<close> case, reaches the \<^verbatim>\<open>catch\<close>. The
  \<^verbatim>\<open>catch\<close> first logs with a template that converts \<^verbatim>\<open>name\<close>: when that conversion
  throws, the handler throws; otherwise the answer has code \<open>-32603\<close>.
\<close>

definition handleToolsCall :: "env \<Rightarrow> json \<Rightarrow> server \<Rightarrow> completion" where
  "handleToolsCall c message s =
     (case getProp message ''params'' of Inl err \<Rightarrow> (Inl err, s) | Inr p \<Rightarrow>
      case getProp message ''id'' of Inl err \<Rightarrow> (Inl err, s) | Inr ident \<Rightarrow>
      (let params = js_or p (JObj [])
       in case getProp params ''name'' of Inl err \<Rightarrow> (Inl err, s) | Inr name \<Rightarrow>
          case getProp params ''input'' of Inl err \<Rightarrow> (Inl err, s) | Inr input \<Rightarrow>
            if \<not> truthy name then (Inr (), sendErrorResponse ident (- 32602) ''Missing tool name'' s)
            else
              (case (case tool_switch c name input s of
                       None \<Rightarrow>
                         (case to_string (number_to_string c) name of
                            Inl err \<Rightarrow> (Inl err, s)
                          | Inr shown \<Rightarrow>
                              (Inr (), sendErrorResponse ident (- 32601)
                                         (''Unknown tool: '' @ shown) s))
                     | Some (Inl err, s') \<Rightarrow> (Inl err, s')
                     | Some (Inr result, s') \<Rightarrow>
                         (Inr (), sendResult ident (JObj [(''result'', result)]) s')) of
                 (Inr u, s') \<Rightarrow> (Inr u, s')
               | (Inl err, s') \<Rightarrow>
                   (case to_string (number_to_string c) name of
                      Inl err2 \<Rightarrow> (Inl err2, s')
                    | Inr logged \<Rightarrow>
                        (Inr (), sendErrorResponse ident (- 32603)
                                   (''Error handling tool call: '' @ message_of err) s')))))"

text \<open>
  \<^verbatim>\<open>handleResourcesGet(message)\<close>. For \<^verbatim>\<open>settings\<close> the content is a copy of the
  settings object; a truthy \<^verbatim>\<open>anthropicApiKey\<close> of the copy is overwritten. Any other
  name is answered with code \<open>-32602\<close>. A name whose conversion throws reaches the
  \<^verbatim>\<open>catch\<close>, whose templates convert it again.
\<close>

definition handleResourcesGet :: "env \<Rightarrow> json \<Rightarrow> server \<Rightarrow> completion" where
  "handleResourcesGet c message s =
     (case getProp message ''params'' of Inl err \<Rightarrow> (Inl err, s) | Inr p \<Rightarrow>
      case getProp message ''id'' of Inl err \<Rightarrow> (Inl err, s) | Inr ident \<Rightarrow>
      (let params = js_or p (JObj [])
       in case getProp params ''name'' of Inl err \<Rightarrow> (Inl err, s) | Inr name \<Rightarrow>
            if \<not> truthy name
            then (Inr (), sendErrorResponse ident (- 32602) ''Missing resource name'' s)
            else if name = JStr ''settings''
            then
              (let copy = settings s;
                   content =
                     (if truthy (lookup copy ''anthropicApiKey'')
                      then assign copy ''anthropicApiKey''
                             (if truthy (lookup copy ''anthropicApiKey'')
                              then JStr ''[REDACTED]'' else JStr [])
                      else copy)
               in (Inr (), sendResult ident (JObj [(''content'', JObj content)]) s))
            else
              (case to_string (number_to_string c) name of
                 Inl err \<Rightarrow>
                   (case to_string (number_to_string c) name of
                      Inl err2 \<Rightarrow> (Inl err2, s)
                    | Inr shown \<Rightarrow>
                        (Inr (), sendErrorResponse ident (- 32000)
                                   (''Error getting resource '' @ shown @ '': '' @ message_of err) s))
               | Inr shown \<Rightarrow>
                   (Inr (), sendErrorResponse ident (- 32602) (''Unknown resource: '' @ shown) s))))"

text \<open>The \<^verbatim>\<open>switch (message.method)\<close> inside the \<^verbatim>\<open>try\<close> of
  \<^verbatim>\<open>handleJsonRpcMessage\<close>.\<close>

definition dispatch :: "env \<Rightarrow> json \<Rightarrow> json \<Rightarrow> json \<Rightarrow> server \<Rightarrow> completion" where
  "dispatch c message method ident s =
     (if method = JStr ''initialize'' then (Inr (), sendInitializeResult ident s)
      else if method = JStr ''shutdown'' then (Inr (), sendResult ident (JObj []) s)
      else if method = JStr ''tools/list'' then handleToolsList message s
      else if method = JStr ''tools/call'' then handleToolsCall c message s
      else if method = JStr ''resources/list'' then handleResourcesList message s
      else if method = JStr ''resources/get'' then handleResourcesGet c message s
      else (case to_string (number_to_string c) method of
              Inl err \<Rightarrow> (Inl err, s)
            | Inr shown \<Rightarrow>
                (Inr (), sendErrorResponse ident (- 32601) (''Method not found: '' @ shown) s)))"

text \<open>
  \<^verbatim>\<open>handleJsonRpcMessage(message)\<close>. A message that is \<^verbatim>\<open>null\<close> makes the read of
  \<^verbatim>\<open>message.jsonrpc\<close> throw, and the promise is rejected with nothing written. The
  \<^verbatim>\<open>catch\<close> answers with code \<open>-32000\<close>; its own template can throw in turn.
\<close>

definition handleJsonRpcMessage :: "env \<Rightarrow> json \<Rightarrow> server \<Rightarrow> completion" where
  "handleJsonRpcMessage c message s =
     (case getProp message ''jsonrpc'' of Inl err \<Rightarrow> (Inl err, s) | Inr version \<Rightarrow>
      case getProp message ''id'' of Inl err \<Rightarrow> (Inl err, s) | Inr ident \<Rightarrow>
      case getProp message ''method'' of Inl err \<Rightarrow> (Inl err, s) | Inr method \<Rightarrow>
        if version \<noteq> JStr ''2.0''
        then (Inr (), sendErrorResponse ident (- 32600) ''Invalid Request'' s)
        else if \<not> truthy method then (Inr (), s)
        else
          (case dispatch c message method ident s of
             (Inr u, s') \<Rightarrow> (Inr u, s')
           | (Inl err, s') \<Rightarrow>
               (case to_string (number_to_string c) method of
                  Inl err2 \<Rightarrow> (Inl err2, s')
                | Inr shown \<Rightarrow>
                    (Inr (), sendErrorResponse ident (- 32000)
                               (''Error handling method '' @ shown @ '': '' @ message_of err) s'))))"

text \<open>The messages written while a message was handled, in order.\<close>

fun sent :: "event list \<Rightarrow> (json \<times> payload) list" where
  "sent [] = []"
| "sent (Send ident body # evs) = (ident, body) # sent evs"
| "sent (ev # evs) = sent evs"

text \<open>The codes of the error responses among the events.\<close>

fun error_codes :: "event list \<Rightarrow> int list" where
  "error_codes [] = []"
| "error_codes (Send ident (Failure code msg) # evs) = code # error_codes evs"
| "error_codes (ev # evs) = error_codes evs"

text \<open>The collaborator calls among the events, and the calls of a token counter
  among those.\<close>

fun is_call :: "event \<Rightarrow> bool" where
  "is_call (Send ident body) = False"
| "is_call ev = True"

fun is_token_call :: "event \<Rightarrow> bool" where
  "is_token_call (EncodeCall encoding text) = True"
| "is_token_call (TokenizeCall text apiKey) = True"
| "is_token_call ev = False"


section \<open>Requests in flight together\<close>

text \<open>
  \<^verbatim>\<open>handleStdinData\<close> calls \<^verbatim>\<open>handleJsonRpcMessage\<close> without awaiting it, so a
  handler that has reached an \<^verbatim>\<open>await\<close> is suspended while later lines are handled.
  JavaScript runs the code between two \<^verbatim>\<open>await\<close>s of a function without
  interruption. An invocation of \<^verbatim>\<open>handleGenerateMarkdown\<close> is therefore a task that
  advances one such stretch at a time; between the stretches of one task, stretches of
  other tasks may run on the same \<^verbatim>\<open>this.settings\<close>. A suspended task holds its local
  variables and the outcome its pending collaborator call will deliver.
\<close>

datatype gm_task =
    GmStart json
  | GmAwaitScan json json json "js_error + dir_item"
  | GmAwaitAssemble json json "js_error + string"
  | GmAwaitStats json json string "js_error + json"
  | GmDone "js_error + json"

text \<open>The call of \<^verbatim>\<open>generateMarkdownContent\<close> and the suspension on it.\<close>

definition gm_assemble ::
  "env \<Rightarrow> json \<Rightarrow> json \<Rightarrow> json \<Rightarrow> json \<Rightarrow> server \<Rightarrow> gm_task \<times> server" where
  "gm_assemble c folderPath pathsToProcess ignorePatterns originalIgnorePatterns s =
     (GmAwaitAssemble ignorePatterns originalIgnorePatterns
        (generateMarkdownContent c folderPath pathsToProcess),
      emit (AssembleCall folderPath pathsToProcess) s)"

text \<open>
  One stretch of a task. From \<open>GmStart\<close>: everything up to the first \<^verbatim>\<open>await\<close>, that
  is the destructuring, the check, the installation of the override and the call of the
  scan (or of the assembler when \<^verbatim>\<open>selectedPaths\<close> is given). From a suspended state:
  the continuation with the delivered outcome, up to the next \<^verbatim>\<open>await\<close> or to the
  end of the handler, the \<^verbatim>\<open>finally\<close> block included.
\<close>

fun gm_step :: "env \<Rightarrow> gm_task \<Rightarrow> server \<Rightarrow> gm_task \<times> server" where
  "gm_step c (GmStart input) s =
     (case getProp input ''folderPath'' of Inl err \<Rightarrow> (GmDone (Inl err), s) | Inr folderPath \<Rightarrow>
      case getProp input ''selectedPaths'' of Inl err \<Rightarrow> (GmDone (Inl err), s) | Inr selectedPaths \<Rightarrow>
      case getProp input ''ignorePatterns'' of Inl err \<Rightarrow> (GmDone (Inl err), s) | Inr ignorePatterns \<Rightarrow>
        if \<not> truthy folderPath then (GmDone (Inl (JsError ''folderPath is required'')), s)
        else
          (case (if truthy ignorePatterns
                 then (case spread (lookup (settings s) ''ignorePatterns'') of
                         Inl err \<Rightarrow> Inl err
                       | Inr copy \<Rightarrow>
                           Inr (JArr copy,
                                s\<lparr>settings := assign (settings s) ''ignorePatterns'' ignorePatterns\<rparr>))
                 else Inr (JUndefined, s)) of
             Inl err \<Rightarrow> (GmDone (Inl err), s)
           | Inr (originalIgnorePatterns, s1) \<Rightarrow>
               (if truthy selectedPaths
                then gm_assemble c folderPath selectedPaths ignorePatterns originalIgnorePatterns s1
                else
                  (let patterns = lookup (settings s1) ''ignorePatterns''
                   in (GmAwaitScan folderPath ignorePatterns originalIgnorePatterns
                         (getDirectoryStructure c folderPath patterns),
                       emit (ScanCall folderPath patterns) s1)))))"
| "gm_step c (GmAwaitScan folderPath ignorePatterns originalIgnorePatterns pending) s =
     (case pending of
        Inl err \<Rightarrow> (GmDone (Inl err), restore_patterns ignorePatterns originalIgnorePatterns s)
      | Inr directoryStructure \<Rightarrow>
          gm_assemble c folderPath (JArr (map JStr (collectFilePaths directoryStructure)))
            ignorePatterns originalIgnorePatterns s)"
| "gm_step c (GmAwaitAssemble ignorePatterns originalIgnorePatterns pending) s =
     (case pending of
        Inl err \<Rightarrow> (GmDone (Inl err), restore_patterns ignorePatterns originalIgnorePatterns s)
      | Inr markdownContent \<Rightarrow>
          (case calculateStats c (JStr markdownContent) s of
             (stats, s') \<Rightarrow>
               (GmAwaitStats ignorePatterns originalIgnorePatterns markdownContent stats, s')))"
| "gm_step c (GmAwaitStats ignorePatterns originalIgnorePatterns markdownContent pending) s =
     (case pending of
        Inl err \<Rightarrow> (GmDone (Inl err), restore_patterns ignorePatterns originalIgnorePatterns s)
      | Inr stats \<Rightarrow>
          (GmDone (Inr (JObj [(''success'', JBool True),
                              (''markdownContent'', JStr markdownContent),
                              (''stats'', stats)])),
           restore_patterns ignorePatterns originalIgnorePatterns s))"
| "gm_step c (GmDone outcome) s = (GmDone outcome, s)"

text \<open>A task running alone for \<open>n\<close> stretches.\<close>

fun gm_run :: "env \<Rightarrow> nat \<Rightarrow> gm_task \<times> server \<Rightarrow> gm_task \<times> server" where
  "gm_run c 0 x = x"
| "gm_run c (Suc n) x = gm_run c n (gm_step c (fst x) (snd x))"

text \<open>
  The tasks in flight, each with the collaborators that answer it, the shared server,
  and a log that attributes every event to the task whose stretch produced it.
\<close>

type_synonym system = "(env \<times> gm_task) list \<times> server \<times> (nat \<times> event) list"

definition sys_step :: "nat \<Rightarrow> system \<Rightarrow> system" where
  "sys_step i sys =
     (case sys of (tasks, s, entries) \<Rightarrow>
        if i < length tasks
        then (case tasks ! i of (c, t) \<Rightarrow>
                (case gm_step c t s of (t', s') \<Rightarrow>
                   (tasks[i := (c, t')], s',
                    entries @ map (Pair i) (drop (length (trace s)) (trace s')))))
        else sys)"

text \<open>A schedule names, stretch after stretch, the task that runs next.\<close>

fun run :: "nat list \<Rightarrow> system \<Rightarrow> system" where
  "run [] sys = sys"
| "run (i # sched) sys = run sched (sys_step i sys)"


section \<open>Requests and fixtures\<close>

text \<open>A message that reads as a request: version \<^verbatim>\<open>"2.0"\<close>, the given \<^verbatim>\<open>id\<close>,
  \<^verbatim>\<open>method\<close> and \<^verbatim>\<open>params\<close> (each \<open>JUndefined\<close> when the message has no such
  property).\<close>

definition is_request :: "json \<Rightarrow> json \<Rightarrow> string \<Rightarrow> json \<Rightarrow> bool" where
  "is_request message ident method params =
     (getProp message ''jsonrpc'' = Inr (JStr ''2.0'') \<and>
      getProp message ''id'' = Inr ident \<and>
      getProp message ''method'' = Inr (JStr method) \<and>
      getProp message ''params'' = Inr params)"

text \<open>The wire shape of a request.\<close>

definition request :: "json \<Rightarrow> string \<Rightarrow> json \<Rightarrow> json" where
  "request ident method params =
     JObj [(''jsonrpc'', JStr ''2.0''), (''id'', ident), (''method'', JStr method),
           (''params'', params)]"

definition tools_call :: "json \<Rightarrow> json \<Rightarrow> json \<Rightarrow> json" where
  "tools_call ident name input =
     request ident ''tools/call'' (JObj [(''name'', name), (''input'', input)])"

definition resources_get :: "json \<Rightarrow> json \<Rightarrow> json" where
  "resources_get ident name = request ident ''resources/get'' (JObj [(''name'', name)])"

definition supported_methods :: "string list" where
  "supported_methods =
     [''initialize'', ''shutdown'', ''tools/list'', ''tools/call'', ''resources/list'',
      ''resources/get'']"

definition tool_names :: "string list" where
  "tool_names =
     [''generate_markdown'', ''pack_remote_repository'', ''process_with_security'',
      ''count_tokens'', ''get_directory_structure'']"

text \<open>Decimal digits: what the runtime prints for an integer of magnitude below
  \<^verbatim>\<open>2 ** 53\<close>. The examples take it for their number printer, and convert no number.\<close>

definition decimal_digit :: "nat \<Rightarrow> char" where
  "decimal_digit d = ''0123456789'' ! (d mod 10)"

function decimal_nat :: "nat \<Rightarrow> string" where
  "decimal_nat n =
     (if n < 10 then [decimal_digit n]
      else decimal_nat (n div 10) @ [decimal_digit (n mod 10)])"
  by pat_completeness auto
termination
  by (relation "measure id") auto

declare decimal_nat.simps [simp del]

definition decimal :: "int \<Rightarrow> string" where
  "decimal i = (if i < 0 then CHR ''-'' # decimal_nat (nat (- i)) else decimal_nat (nat i))"

text \<open>Collaborators for the examples: a folder with two files; no packaging tool, no
  tokenizer, an unreachable tokenize endpoint.\<close>

definition demo_env :: env where
  "demo_env =
     \<lparr>getDirectoryStructure =
        (\<lambda>folderPath patterns.
           Inr (DirItem ''repo'' ''/repo''
                  [FileItem ''a.js'' ''/repo/a.js'',
                   DirItem ''lib'' ''/repo/lib'' [FileItem ''b.js'' ''/repo/lib/b.js'']])),
      generateMarkdownContent = (\<lambda>folderPath paths. Inr ''## a.js''),
      repoMixIntegration = None,
      tiktoken = None,
      axios_post = (\<lambda>text apiKey. Inl (JsError ''Network Error'')),
      ceil_quarter_coerced = (\<lambda>v. Inr JNull),
      number_to_string = decimal\<rparr>"

text \<open>The same, with a scan that fails.\<close>

definition failing_env :: env where
  "failing_env =
     demo_env\<lparr>getDirectoryStructure :=
                (\<lambda>folderPath patterns. Inl (JsError ''ENOENT: no such file or directory''))\<rparr>"

text \<open>The input of a \<^verbatim>\<open>generate_markdown\<close> call with an override of one pattern.\<close>

definition override_call :: "string \<Rightarrow> string \<Rightarrow> json" where
  "override_call folder pattern =
     JObj [(''folderPath'', JStr folder), (''ignorePatterns'', JArr [JStr pattern])]"

definition demo_server :: server where
  "demo_server =
     \<lparr>settings = [(''ignorePatterns'', JArr [JStr ''node_modules'', JStr ''.git'']),
                  (''anthropicApiKey'', JStr [])],
      nextId = 1,
      trace = []\<rparr>"


section \<open>Objects, events and the stats helper: basic facts\<close>

lemma lookup_assign_same: "lookup (assign kvs k v) k = v"
  by (induction kvs) auto

lemma lookup_assign_other: "k' \<noteq> k \<Longrightarrow> lookup (assign kvs k v) k' = lookup kvs k'"
  by (induction kvs) auto

lemma assign_twice: "assign (assign kvs k v) k w = assign kvs k w"
  by (induction kvs) auto

lemma assign_lookup: "lookup kvs k \<noteq> JUndefined \<Longrightarrow> assign kvs k (lookup kvs k) = kvs"
  by (induction kvs) auto

lemma sent_append: "sent (xs @ ys) = sent xs @ sent ys"
  by (induction xs rule: sent.induct) auto

lemma countOpenAITokens_effect:
  "\<exists>evs. snd (countOpenAITokens c str model s) = s\<lparr>trace := trace s @ evs\<rparr>
         \<and> list_all is_token_call evs"
proof (cases "tiktoken c")
  case None
  then have "snd (countOpenAITokens c str model s) = s\<lparr>trace := trace s @ []\<rparr>"
    by (simp add: countOpenAITokens_def)
  then show ?thesis by (intro exI [of _ "[]"]) simp
next
  case (Some encode)
  then show ?thesis
    by (auto simp: countOpenAITokens_def emit_def Let_def split: sum.splits option.splits)
qed

lemma countClaudeTokensWithAPI_effect:
  "\<exists>evs. snd (countClaudeTokensWithAPI c str apiKey s) = s\<lparr>trace := trace s @ evs\<rparr>
         \<and> list_all is_token_call evs"
proof (cases "truthy apiKey")
  case False
  then have "snd (countClaudeTokensWithAPI c str apiKey s) = s\<lparr>trace := trace s @ []\<rparr>"
    by (simp add: countClaudeTokensWithAPI_def)
  then show ?thesis by (intro exI [of _ "[]"]) simp
next
  case True
  then have "snd (countClaudeTokensWithAPI c str apiKey s)
             = s\<lparr>trace := trace s @ [TokenizeCall str apiKey]\<rparr>"
    by (simp add: countClaudeTokensWithAPI_def emit_def Let_def split: sum.splits)
  then show ?thesis by (intro exI [of _ "[TokenizeCall str apiKey]"]) simp
qed

text \<open>The stats helper touches only the trace, and adds only token-counter calls.\<close>

lemma calculateStats_effect:
  "\<exists>evs. snd (calculateStats c str s) = s\<lparr>trace := trace s @ evs\<rparr>
         \<and> list_all is_token_call evs"
proof (cases "getProp str ''length''")
  case (Inl err)
  then have "snd (calculateStats c str s) = s\<lparr>trace := trace s @ []\<rparr>"
    by (simp add: calculateStats_def)
  then show ?thesis by (intro exI [of _ "[]"]) simp
next
  case (Inr n)
  obtain oa s1 where oa: "countOpenAITokens c str ''gpt-4o'' s = (oa, s1)"
    by (cases "countOpenAITokens c str ''gpt-4o'' s") auto
  obtain e1 where e1: "s1 = s\<lparr>trace := trace s @ e1\<rparr>" "list_all is_token_call e1"
    using countOpenAITokens_effect [of c str "''gpt-4o''" s] oa by auto
  define key where "key = lookup (settings s1) ''anthropicApiKey''"
  define r where "r = (if truthy key then countClaudeTokensWithAPI c str key s1
                         else (countClaudeTokensApprox c str, s1))"
  obtain e2 where e2: "snd r = s1\<lparr>trace := trace s1 @ e2\<rparr>" "list_all is_token_call e2"
  proof (cases "truthy key")
    case True
    then show ?thesis
      using countClaudeTokensWithAPI_effect [of c str key s1] that by (auto simp: r_def)
  next
    case False
    then have "snd r = s1\<lparr>trace := trace s1 @ []\<rparr>" by (simp add: r_def)
    then show ?thesis using that [of "[]"] by simp
  qed
  have "snd (calculateStats c str s) = snd r"
    using Inr oa by (simp add: calculateStats_def r_def key_def Let_def split: prod.splits)
  then have "snd (calculateStats c str s) = s\<lparr>trace := trace s @ (e1 @ e2)\<rparr>"
    using e1 e2 by simp
  moreover have "list_all is_token_call (e1 @ e2)" using e1 e2 by simp
  ultimately show ?thesis by blast
qed


lemma getProp_total: "getProp v k = Inr x \<Longrightarrow> \<exists>y. getProp v k' = Inr y"
  by (cases v) auto

lemma ceil_quarter: "\<lceil>of_int n / (4 :: rat)\<rceil> = \<lceil>real_of_int n / 4\<rceil>"
proof -
  have "\<lceil>(of_int n :: rat) / of_int 4\<rceil> = - (- n div 4)" by (rule ceiling_divide_eq_div)
  moreover have "\<lceil>(of_int n :: real) / of_int 4\<rceil> = - (- n div 4)" by (rule ceiling_divide_eq_div)
  ultimately show ?thesis by simp
qed

lemma calculateStats_string:
  "\<exists>oa cl. fst (calculateStats c (JStr str) s)
     = Inr (JObj [(''characterCount'', JNum (int (length str))), (''openAiTokens'', oa),
                  (''claudeTokens'', cl)])"
  by (simp add: calculateStats_def Let_def split: prod.splits)

section \<open>The stats of a text\<close>

text \<open>
  Claim C8. For every text, when no credential is configured (the \<^verbatim>\<open>anthropicApiKey\<close>
  setting is absent or is the empty string), the \<^verbatim>\<open>claudeTokens\<close> value of the stats
  structure is the ceiling of the text's length divided by four.
\<close>

theorem claude_tokens_without_credential:
  assumes "lookup (settings s) ''anthropicApiKey'' = JUndefined
           \<or> lookup (settings s) ''anthropicApiKey'' = JStr []"
  shows "\<exists>stats. fst (calculateStats c (JStr str) s) = Inr stats
           \<and> getProp stats ''claudeTokens'' = Inr (JNum \<lceil>real (length str) / 4\<rceil>)"
proof -
  obtain oa s1 where oa: "countOpenAITokens c (JStr str) ''gpt-4o'' s = (oa, s1)"
    by (cases "countOpenAITokens c (JStr str) ''gpt-4o'' s") auto
  obtain evs where "s1 = s\<lparr>trace := trace s @ evs\<rparr>"
    using countOpenAITokens_effect [of c "JStr str" "''gpt-4o''" s] oa by auto
  then have key: "\<not> truthy (lookup (settings s1) ''anthropicApiKey'')"
    using assms by auto
  have "countClaudeTokensApprox c (JStr str) = JNum \<lceil>real (length str) / 4\<rceil>"
    using ceil_quarter [of "int (length str)"] by (simp add: countClaudeTokensApprox_def)
  then have "fst (calculateStats c (JStr str) s)
     = Inr (JObj [(''characterCount'', JNum (int (length str))), (''openAiTokens'', oa),
                  (''claudeTokens'', JNum \<lceil>real (length str) / 4\<rceil>)])"
    using oa key by (simp add: calculateStats_def Let_def)
  then show ?thesis by simp
qed

text \<open>Eleven characters and an empty credential: three tokens.\<close>

theorem claude_tokens_without_credential_witness:
  "lookup (settings demo_server) ''anthropicApiKey'' = JStr []
   \<and> (\<exists>stats. fst (calculateStats demo_env (JStr ''hello world'') demo_server) = Inr stats
           \<and> getProp stats ''claudeTokens'' = Inr (JNum 3))"
proof -
  have empty: "lookup (settings demo_server) ''anthropicApiKey'' = JStr []"
    by (simp add: demo_server_def)
  then have "lookup (settings demo_server) ''anthropicApiKey'' = JUndefined
        \<or> lookup (settings demo_server) ''anthropicApiKey'' = JStr []"
    by simp
  from claude_tokens_without_credential [OF this, of demo_env "''hello world''"] empty
  show ?thesis by simp
qed


section \<open>The dispatcher\<close>

lemma is_request_object: "is_request m ident method params \<Longrightarrow> \<exists>kvs. m = JObj kvs"
  by (cases m) (auto simp: is_request_def)

lemma is_request_fields:
  assumes "is_request (JObj mk) ident method params"
  shows "lookup mk ''jsonrpc'' = JStr ''2.0''" "lookup mk ''id'' = ident"
    "lookup mk ''method'' = JStr method" "lookup mk ''params'' = params"
  using assms by (simp_all add: is_request_def)

text \<open>
  Claim C6 says that every incoming message whose \<^verbatim>\<open>jsonrpc\<close> field is not the string
  \<^verbatim>\<open>"2.0"\<close> is answered with an error response with code \<open>-32600\<close>. The line
  \<^verbatim>\<open>null\<close> is valid JSON, so the framer hands \<^verbatim>\<open>null\<close> to \<^verbatim>\<open>handleJsonRpcMessage\<close>;
  it has no \<^verbatim>\<open>jsonrpc\<close> field equal to \<^verbatim>\<open>"2.0"\<close>, yet the read of \<^verbatim>\<open>message.jsonrpc\<close>
  throws, the handler's promise is rejected, and nothing is written: no error response
  reaches the client.
\<close>

theorem null_message_unanswered:
  "(\<exists>err. handleJsonRpcMessage c JNull s = (Inl (JsTypeError err), s))
   \<and> sent (trace (snd (handleJsonRpcMessage c JNull s))) = sent (trace s)
   \<and> error_codes (trace (snd (handleJsonRpcMessage c JNull s))) = error_codes (trace s)"
  by (simp add: handleJsonRpcMessage_def)

text \<open>
  For every other message, that is every parsed value on which \<^verbatim>\<open>message.jsonrpc\<close> can
  be read (an object, an array, a string, a number, a boolean), the claim holds:
  whatever the method, the parameters, the settings and the collaborators are, handling
  the message completes with the server unchanged but for one error response with code
  \<open>-32600\<close>, sent to the message's \<^verbatim>\<open>id\<close>; no method handler is reached.
\<close>

lemma invalid_version_rejected:
  assumes "getProp message ''jsonrpc'' = Inr version" and "version \<noteq> JStr ''2.0''"
    and "getProp message ''id'' = Inr ident"
  shows "handleJsonRpcMessage c message s
         = (Inr (), s\<lparr>trace := trace s @ [Send ident (Failure (- 32600) ''Invalid Request'')]\<rparr>)"
proof -
  obtain meth where "getProp message ''method'' = Inr meth"
    using getProp_total [OF assms(1)] by blast
  then show ?thesis
    using assms by (simp add: handleJsonRpcMessage_def sendErrorResponse_def emit_def)
qed

text \<open>A \<^verbatim>\<open>tools/call\<close> for \<^verbatim>\<open>count_tokens\<close> under version \<^verbatim>\<open>"1.0"\<close>: only the error
  is written, no counter is called.\<close>

lemma invalid_version_example:
  "handleJsonRpcMessage demo_env
     (JObj [(''jsonrpc'', JStr ''1.0''), (''id'', JNum 3), (''method'', JStr ''tools/call''),
            (''params'', JObj [(''name'', JStr ''count_tokens''),
                               (''input'', JObj [(''text'', JStr ''hello'')])])])
     demo_server
   = (Inr (), demo_server\<lparr>trace := [Send (JNum 3) (Failure (- 32600) ''Invalid Request'')]\<rparr>)"
  using invalid_version_rejected
    [of "JObj [(''jsonrpc'', JStr ''1.0''), (''id'', JNum 3), (''method'', JStr ''tools/call''),
            (''params'', JObj [(''name'', JStr ''count_tokens''),
                               (''input'', JObj [(''text'', JStr ''hello'')])])]"
        "JStr ''1.0''" "JNum 3" demo_env demo_server]
  by (simp add: demo_server_def)

section \<open>Resources\<close>

text \<open>
  Claim C2, as the specification states it, asks for code \<open>-32601\<close> when
  \<^verbatim>\<open>resources/get\<close> names an unknown resource. The request
  \<^verbatim>\<open>{"jsonrpc":"2.0","id":2,"method":"resources/get","params":{"name":"foo"}}\<close> is
  answered with code \<open>-32602\<close>.
\<close>

theorem unknown_resource_code_counterexample:
  "error_codes (trace (snd (handleJsonRpcMessage demo_env
      (resources_get (JNum 2) (JStr ''foo'')) demo_server))) = [- 32602]
   \<and> error_codes (trace (snd (handleJsonRpcMessage demo_env
      (resources_get (JNum 2) (JStr ''foo'')) demo_server))) \<noteq> [- 32601]"
  by (simp add: resources_get_def request_def handleJsonRpcMessage_def dispatch_def
      handleResourcesGet_def js_or_def sendErrorResponse_def emit_def demo_server_def)

text \<open>
  Claim C2, amended. For every \<^verbatim>\<open>resources/get\<close> request whose \<^verbatim>\<open>params.name\<close> is not
  \<^verbatim>\<open>"settings"\<close> and is falsy or converts to a string (as every string does, to itself;
  a number converts to what the runtime prints for it), the engine replies with an
  error response whose code is \<open>-32602\<close>, and it does not read the settings object: the
  response is determined by the \<^verbatim>\<open>id\<close> and the name alone, and the server is otherwise
  unchanged.
\<close>

theorem unknown_resource_invalid_params:
  assumes "is_request message ident ''resources/get'' (JObj kvs)"
    and "lookup kvs ''name'' = name"
    and "name \<noteq> JStr ''settings''"
    and "\<not> truthy name \<or> to_string (number_to_string c) name = Inr shown"
  shows "handleJsonRpcMessage c message s
         = (Inr (), s\<lparr>trace := trace s @
              [Send ident (Failure (- 32602)
                 (if truthy name then ''Unknown resource: '' @ shown
                  else ''Missing resource name''))]\<rparr>)"
proof -
  obtain mk where m: "message = JObj mk"
    using is_request_object [OF assms(1)] by blast
  note f = is_request_fields [OF assms(1) [unfolded m]]
  show ?thesis
    using assms(2-4) f
    by (auto simp: m handleJsonRpcMessage_def dispatch_def handleResourcesGet_def js_or_def
        sendErrorResponse_def emit_def)
qed

theorem unknown_resource_invalid_params_witness:
  "handleJsonRpcMessage demo_env (resources_get (JNum 2) (JStr ''foo'')) demo_server
   = (Inr (), demo_server\<lparr>trace :=
        [Send (JNum 2) (Failure (- 32602) ''Unknown resource: foo'')]\<rparr>)"
  using unknown_resource_invalid_params
    [where message = "resources_get (JNum 2) (JStr ''foo'')" and ident = "JNum 2"
       and kvs = "[(''name'', JStr ''foo'')]" and name = "JStr ''foo''" and shown = "''foo''"
       and c = demo_env and s = demo_server]
  by (simp add: resources_get_def request_def is_request_def demo_server_def)

text \<open>
  Claim C5, as the specification states it, says that the credential field of the
  content equals the redaction marker and never equals the configured value. When the
  configured value is the marker string itself, the field of the content equals the
  configured value.
\<close>

theorem redaction_marker_counterexample:
  "truthy (lookup (settings (demo_server\<lparr>settings := [(''anthropicApiKey'', JStr ''[REDACTED]'')]\<rparr>))
             ''anthropicApiKey'')
   \<and> trace (snd (handleJsonRpcMessage demo_env (resources_get (JNum 1) (JStr ''settings''))
        (demo_server\<lparr>settings := [(''anthropicApiKey'', JStr ''[REDACTED]'')]\<rparr>)))
     = [Send (JNum 1) (Result (JObj [(''content'',
          JObj [(''anthropicApiKey'',
                 lookup (settings (demo_server\<lparr>settings :=
                           [(''anthropicApiKey'', JStr ''[REDACTED]'')]\<rparr>))
                   ''anthropicApiKey'')])]))]"
  by (simp add: resources_get_def request_def handleJsonRpcMessage_def dispatch_def
      handleResourcesGet_def js_or_def sendResult_def emit_def demo_server_def Let_def)

text \<open>
  Claim C5, amended. For every settings object in which \<^verbatim>\<open>anthropicApiKey\<close> is configured
  to a non-empty (truthy) value, a \<^verbatim>\<open>resources/get\<close> request with name \<^verbatim>\<open>"settings"\<close>
  returns as content the settings with that field replaced by the fixed marker
  \<^verbatim>\<open>[REDACTED]\<close>, whatever the configured value is; the field therefore differs from the
  configured value whenever that value is not the marker string itself; and the live
  settings object is left unmodified.
\<close>

theorem settings_resource_redacted:
  assumes "is_request message ident ''resources/get'' (JObj kvs)"
    and "lookup kvs ''name'' = JStr ''settings''"
    and "truthy (lookup (settings s) ''anthropicApiKey'')"
  shows "handleJsonRpcMessage c message s
           = (Inr (), s\<lparr>trace := trace s @
                [Send ident (Result (JObj [(''content'',
                   JObj (assign (settings s) ''anthropicApiKey'' (JStr ''[REDACTED]'')))]))]\<rparr>)
         \<and> lookup (assign (settings s) ''anthropicApiKey'' (JStr ''[REDACTED]'')) ''anthropicApiKey''
             = JStr ''[REDACTED]''
         \<and> (lookup (settings s) ''anthropicApiKey'' \<noteq> JStr ''[REDACTED]''
              \<longrightarrow> lookup (assign (settings s) ''anthropicApiKey'' (JStr ''[REDACTED]''))
                     ''anthropicApiKey'' \<noteq> lookup (settings s) ''anthropicApiKey'')
         \<and> settings (snd (handleJsonRpcMessage c message s)) = settings s"
proof -
  obtain mk where m: "message = JObj mk"
    using is_request_object [OF assms(1)] by blast
  note f = is_request_fields [OF assms(1) [unfolded m]]
  have "handleJsonRpcMessage c message s
           = (Inr (), s\<lparr>trace := trace s @
                [Send ident (Result (JObj [(''content'',
                   JObj (assign (settings s) ''anthropicApiKey'' (JStr ''[REDACTED]'')))]))]\<rparr>)"
    using assms(2,3) f
    by (simp add: m handleJsonRpcMessage_def dispatch_def handleResourcesGet_def js_or_def
        sendResult_def emit_def Let_def)
  then show ?thesis
    by (simp add: lookup_assign_same)
qed

theorem settings_resource_redacted_witness:
  "handleJsonRpcMessage demo_env (resources_get (JNum 1) (JStr ''settings''))
     (demo_server\<lparr>settings := [(''ignorePatterns'', JArr []),
                                 (''anthropicApiKey'', JStr ''sk-ant-12345'')]\<rparr>)
   = (Inr (), \<lparr>settings = [(''ignorePatterns'', JArr []),
                            (''anthropicApiKey'', JStr ''sk-ant-12345'')],
                nextId = 1,
                trace = [Send (JNum 1) (Result (JObj [(''content'',
                   JObj [(''ignorePatterns'', JArr []),
                         (''anthropicApiKey'', JStr ''[REDACTED]'')])]))]\<rparr>)"
  using settings_resource_redacted
    [of "resources_get (JNum 1) (JStr ''settings'')" "JNum 1" "[(''name'', JStr ''settings'')]"
        "demo_server\<lparr>settings := [(''ignorePatterns'', JArr []),
                                 (''anthropicApiKey'', JStr ''sk-ant-12345'')]\<rparr>" demo_env]
  by (simp add: resources_get_def request_def is_request_def demo_server_def)

section \<open>Tool calls\<close>

text \<open>
  Claim C7, as the specification states it, covers every \<^verbatim>\<open>tools/call\<close> whose
  \<^verbatim>\<open>params.name\<close> is present and is not a registered tool name. The request
  \<^verbatim>\<open>{"jsonrpc":"2.0","id":1,"method":"tools/call","params":{"name":"","input":{}}}\<close>
  carries a name, the empty string, that is no registered tool; the presence check
  \<^verbatim>\<open>if (!name)\<close> takes it for a missing name and the answer has code \<open>-32602\<close>.
\<close>

theorem unknown_tool_empty_name_counterexample:
  "error_codes (trace (snd (handleJsonRpcMessage demo_env
      (tools_call (JNum 1) (JStr []) (JObj [])) demo_server))) = [- 32602]
   \<and> error_codes (trace (snd (handleJsonRpcMessage demo_env
      (tools_call (JNum 1) (JStr []) (JObj [])) demo_server))) \<noteq> [- 32601]"
  by (simp add: tools_call_def request_def handleJsonRpcMessage_def dispatch_def
      handleToolsCall_def js_or_def sendErrorResponse_def emit_def demo_server_def)

text \<open>
  Claim C7, amended. For every \<^verbatim>\<open>tools/call\<close> request whose \<^verbatim>\<open>params.name\<close> is truthy
  (for a string: not empty), converts to a string (as every string does, to itself; a
  number converts to what the runtime prints for it) and is not one of the five
  registered tool names, the engine replies with an error response with code \<open>-32601\<close>
  carrying the name so converted, and no collaborator is invoked: that response is the
  only event.
\<close>

theorem unknown_tool_rejected:
  assumes "is_request message ident ''tools/call'' (JObj kvs)"
    and "lookup kvs ''name'' = name"
    and "truthy name"
    and "name \<notin> JStr ` set tool_names"
    and "to_string (number_to_string c) name = Inr shown"
  shows "handleJsonRpcMessage c message s
         = (Inr (), s\<lparr>trace := trace s @
              [Send ident (Failure (- 32601) (''Unknown tool: '' @ shown))]\<rparr>)"
proof -
  obtain mk where m: "message = JObj mk"
    using is_request_object [OF assms(1)] by blast
  note f = is_request_fields [OF assms(1) [unfolded m]]
  have sw: "tool_switch c name (lookup kvs ''input'') s = None"
    using assms(4) by (simp add: tool_switch_def tool_names_def)
  show ?thesis
    using assms(2,3,5) f sw
    by (simp add: m handleJsonRpcMessage_def dispatch_def handleToolsCall_def js_or_def
        sendErrorResponse_def emit_def)
qed

theorem unknown_tool_rejected_witness:
  "handleJsonRpcMessage demo_env (tools_call (JNum 4) (JStr ''delete_everything'') (JObj []))
     demo_server
   = (Inr (), demo_server\<lparr>trace :=
        [Send (JNum 4) (Failure (- 32601) ''Unknown tool: delete_everything'')]\<rparr>)"
  using unknown_tool_rejected
    [where message = "tools_call (JNum 4) (JStr ''delete_everything'') (JObj [])"
       and ident = "JNum 4"
       and kvs = "[(''name'', JStr ''delete_everything''), (''input'', JObj [])]"
       and name = "JStr ''delete_everything''" and shown = "''delete_everything''"
       and c = demo_env and s = demo_server]
  by (simp add: tools_call_def request_def is_request_def demo_server_def tool_names_def)

text \<open>
  Claim C9. For every \<^verbatim>\<open>count_tokens\<close> tool call with a non-empty text input, the
  stats structure in the response carries \<^verbatim>\<open>characterCount\<close> equal to the length of the
  text; the response is the only message written, after calls of token counters only.
\<close>

theorem count_tokens_character_count:
  assumes "is_request message ident ''tools/call'' (JObj kvs)"
    and "lookup kvs ''name'' = JStr ''count_tokens''"
    and "getProp (lookup kvs ''input'') ''text'' = Inr (JStr str)"
    and "str \<noteq> []"
  shows "\<exists>stats evs.
           handleJsonRpcMessage c message s
             = (Inr (), s\<lparr>trace := trace s @ evs @
                  [Send ident (Result (JObj [(''result'',
                     JObj [(''success'', JBool True), (''stats'', stats)])]))]\<rparr>)
           \<and> list_all is_token_call evs
           \<and> getProp stats ''characterCount'' = Inr (JNum (int (length str)))"
proof -
  obtain mk where m: "message = JObj mk"
    using is_request_object [OF assms(1)] by blast
  note f = is_request_fields [OF assms(1) [unfolded m]]
  obtain model where model: "getProp (lookup kvs ''input'') ''model'' = Inr model"
    using getProp_total [OF assms(3)] by blast
  obtain oa cl where st: "fst (calculateStats c (JStr str) s)
     = Inr (JObj [(''characterCount'', JNum (int (length str))), (''openAiTokens'', oa),
                  (''claudeTokens'', cl)])"
    using calculateStats_string by blast
  obtain evs where ev: "snd (calculateStats c (JStr str) s) = s\<lparr>trace := trace s @ evs\<rparr>"
    "list_all is_token_call evs"
    using calculateStats_effect by blast
  let ?stats = "JObj [(''characterCount'', JNum (int (length str))), (''openAiTokens'', oa),
                  (''claudeTokens'', cl)]"
  have cs: "calculateStats c (JStr str) s = (Inr ?stats, s\<lparr>trace := trace s @ evs\<rparr>)"
    using st ev(1) by (metis prod.collapse)
  have "handleCountTokens c (lookup kvs ''input'') s
        = (Inr (JObj [(''success'', JBool True), (''stats'', ?stats)]),
           s\<lparr>trace := trace s @ evs\<rparr>)"
    using assms(3,4) model cs by (simp add: handleCountTokens_def)
  then have "handleJsonRpcMessage c message s
             = (Inr (), s\<lparr>trace := trace s @ evs @
                  [Send ident (Result (JObj [(''result'',
                     JObj [(''success'', JBool True), (''stats'', ?stats)])]))]\<rparr>)"
    using assms(2) f
    by (simp add: m handleJsonRpcMessage_def dispatch_def handleToolsCall_def js_or_def
        tool_switch_def sendResult_def emit_def)
  then show ?thesis using ev(2) by (intro exI [of _ ?stats] exI [of _ evs]) simp
qed

text \<open>The scenario of the specification: \<^verbatim>\<open>"hello"\<close> under \<^verbatim>\<open>id\<close> 2 gives 5.\<close>

theorem count_tokens_character_count_witness:
  "\<exists>stats evs.
     handleJsonRpcMessage demo_env
       (tools_call (JNum 2) (JStr ''count_tokens'') (JObj [(''text'', JStr ''hello'')])) demo_server
       = (Inr (), demo_server\<lparr>trace := evs @
            [Send (JNum 2) (Result (JObj [(''result'',
               JObj [(''success'', JBool True), (''stats'', stats)])]))]\<rparr>)
     \<and> list_all is_token_call evs
     \<and> getProp stats ''characterCount'' = Inr (JNum 5)"
  using count_tokens_character_count
    [of "tools_call (JNum 2) (JStr ''count_tokens'') (JObj [(''text'', JStr ''hello'')])"
        "JNum 2" "[(''name'', JStr ''count_tokens''), (''input'', JObj [(''text'', JStr ''hello'')])]"
        "''hello''" demo_env demo_server]
  by (simp add: tools_call_def request_def is_request_def demo_server_def)

lemma handleCountTokens_text_only:
  assumes "getProp input1 ''text'' = getProp input2 ''text''"
  shows "handleCountTokens c input1 s = handleCountTokens c input2 s"
proof (cases "getProp input1 ''text''")
  case (Inl err)
  then show ?thesis using assms by (simp add: handleCountTokens_def)
next
  case (Inr v)
  obtain m1 where m1: "getProp input1 ''model'' = Inr m1"
    using getProp_total [OF Inr] by blast
  have t2: "getProp input2 ''text'' = Inr v" using assms Inr by simp
  then obtain m2 where m2: "getProp input2 ''model'' = Inr m2"
    using getProp_total by blast
  show ?thesis by (simp add: handleCountTokens_def Inr t2 m1 m2)
qed

text \<open>The stats helper always asks for the encoding of \<^verbatim>\<open>"gpt-4o"\<close>.\<close>

lemma stats_encoding_fixed:
  assumes "tiktoken c = Some encode"
  shows "snd (countOpenAITokens c v ''gpt-4o'' s)
         = s\<lparr>trace := trace s @ [EncodeCall (EncodingName ''cl100k_base'') v]\<rparr>"
  using assms
  by (simp add: countOpenAITokens_def modelToEncoding_def emit_def Let_def split: sum.splits)

text \<open>
  Claim C10. The \<^verbatim>\<open>count_tokens\<close> result is independent of the optional \<^verbatim>\<open>model\<close>
  parameter: two requests with the same \<^verbatim>\<open>id\<close> whose inputs carry the same \<^verbatim>\<open>text\<close>
  are handled identically (same response, same calls, same final server), whatever
  else the inputs carry, a \<^verbatim>\<open>model\<close> of any value or none.
\<close>

theorem count_tokens_ignores_model:
  assumes "is_request message1 ident ''tools/call'' (JObj kvs1)"
    and "is_request message2 ident ''tools/call'' (JObj kvs2)"
    and "lookup kvs1 ''name'' = JStr ''count_tokens''"
    and "lookup kvs2 ''name'' = JStr ''count_tokens''"
    and "getProp (lookup kvs1 ''input'') ''text'' = getProp (lookup kvs2 ''input'') ''text''"
  shows "handleJsonRpcMessage c message1 s = handleJsonRpcMessage c message2 s"
proof -
  obtain mk1 where m1: "message1 = JObj mk1"
    using is_request_object [OF assms(1)] by blast
  obtain mk2 where m2: "message2 = JObj mk2"
    using is_request_object [OF assms(2)] by blast
  note f1 = is_request_fields [OF assms(1) [unfolded m1]]
  note f2 = is_request_fields [OF assms(2) [unfolded m2]]
  have h: "handleCountTokens c (lookup kvs1 ''input'') s = handleCountTokens c (lookup kvs2 ''input'') s"
    by (rule handleCountTokens_text_only [OF assms(5)])
  show ?thesis
    using assms(3,4) f1 f2 h
    by (simp add: m1 m2 handleJsonRpcMessage_def dispatch_def handleToolsCall_def js_or_def
        tool_switch_def)
qed

text \<open>\<^verbatim>\<open>model: "gpt-4o"\<close> against \<^verbatim>\<open>model: "claude"\<close>, and against no \<^verbatim>\<open>model\<close>.\<close>

theorem count_tokens_ignores_model_witness:
  "handleJsonRpcMessage demo_env
     (tools_call (JNum 2) (JStr ''count_tokens'')
        (JObj [(''text'', JStr ''hello''), (''model'', JStr ''gpt-4o'')])) demo_server
   = handleJsonRpcMessage demo_env
     (tools_call (JNum 2) (JStr ''count_tokens'')
        (JObj [(''model'', JStr ''claude''), (''text'', JStr ''hello'')])) demo_server
   \<and> handleJsonRpcMessage demo_env
     (tools_call (JNum 2) (JStr ''count_tokens'')
        (JObj [(''text'', JStr ''hello''), (''model'', JStr ''gpt-4o'')])) demo_server
   = handleJsonRpcMessage demo_env
     (tools_call (JNum 2) (JStr ''count_tokens'') (JObj [(''text'', JStr ''hello'')])) demo_server"
  using count_tokens_ignores_model
    [of "tools_call (JNum 2) (JStr ''count_tokens'')
           (JObj [(''text'', JStr ''hello''), (''model'', JStr ''gpt-4o'')])"
        "JNum 2"
        "[(''name'', JStr ''count_tokens''),
          (''input'', JObj [(''text'', JStr ''hello''), (''model'', JStr ''gpt-4o'')])]"
        "tools_call (JNum 2) (JStr ''count_tokens'')
           (JObj [(''model'', JStr ''claude''), (''text'', JStr ''hello'')])"
        "[(''name'', JStr ''count_tokens''),
          (''input'', JObj [(''model'', JStr ''claude''), (''text'', JStr ''hello'')])]"
        demo_env demo_server]
    count_tokens_ignores_model
    [of "tools_call (JNum 2) (JStr ''count_tokens'')
           (JObj [(''text'', JStr ''hello''), (''model'', JStr ''gpt-4o'')])"
        "JNum 2"
        "[(''name'', JStr ''count_tokens''),
          (''input'', JObj [(''text'', JStr ''hello''), (''model'', JStr ''gpt-4o'')])]"
        "tools_call (JNum 2) (JStr ''count_tokens'') (JObj [(''text'', JStr ''hello'')])"
        "[(''name'', JStr ''count_tokens''), (''input'', JObj [(''text'', JStr ''hello'')])]"
        demo_env demo_server]
  by (simp add: tools_call_def request_def is_request_def)


section \<open>The scoped override of \<^verbatim>\<open>generate_markdown\<close>\<close>

lemma countClaudeTokensApprox_string:
  "countClaudeTokensApprox c (JStr str) = JNum (- (- int (length str) div 4))"
proof -
  have "\<lceil>(of_int (int (length str)) :: rat) / of_int 4\<rceil> = - (- int (length str) div 4)"
    by (rule ceiling_divide_eq_div)
  then show ?thesis by (simp add: countClaudeTokensApprox_def)
qed

text \<open>The \<^verbatim>\<open>try\<close> block touches only the trace.\<close>

lemma generateMarkdown_try_effect:
  "\<exists>evs. snd (generateMarkdown_try c folderPath selectedPaths s) = s\<lparr>trace := trace s @ evs\<rparr>"
proof -
  define first where "first =
     (if truthy selectedPaths then (Inr selectedPaths, s)
      else
        (let patterns = lookup (settings s) ''ignorePatterns'';
             s' = emit (ScanCall folderPath patterns) s
         in case getDirectoryStructure c folderPath patterns of
              Inl err \<Rightarrow> (Inl err, s')
            | Inr directoryStructure \<Rightarrow>
                (Inr (JArr (map JStr (collectFilePaths directoryStructure))), s')))"
  obtain r1 s1 where f: "first = (r1, s1)" by (cases first) auto
  have "\<exists>e1. s1 = s\<lparr>trace := trace s @ e1\<rparr>"
  proof (cases "truthy selectedPaths")
    case True
    then have "s1 = s\<lparr>trace := trace s @ []\<rparr>" using f by (simp add: first_def)
    then show ?thesis by blast
  next
    case False
    then have "s1 = s\<lparr>trace := trace s @ [ScanCall folderPath (lookup (settings s) ''ignorePatterns'')]\<rparr>"
      using f by (auto simp: first_def Let_def emit_def split: sum.splits)
    then show ?thesis by blast
  qed
  then obtain e1 where e1: "s1 = s\<lparr>trace := trace s @ e1\<rparr>" by blast
  show ?thesis
  proof (cases r1)
    case (Inl err)
    then have "snd (generateMarkdown_try c folderPath selectedPaths s) = s1"
      using f unfolding generateMarkdown_try_def first_def [symmetric] by simp
    then show ?thesis using e1 by blast
  next
    case (Inr paths)
    let ?s2 = "emit (AssembleCall folderPath paths) s1"
    show ?thesis
    proof (cases "generateMarkdownContent c folderPath paths")
      case (Inl err)
      then have "snd (generateMarkdown_try c folderPath selectedPaths s) = ?s2"
        using f Inr unfolding generateMarkdown_try_def first_def [symmetric] by (simp add: Let_def)
      then have "snd (generateMarkdown_try c folderPath selectedPaths s)
                 = s\<lparr>trace := trace s @ (e1 @ [AssembleCall folderPath paths])\<rparr>"
        using e1 by (simp add: emit_def)
      then show ?thesis by blast
    next
      case (Inr content)
      obtain e3 where e3: "snd (calculateStats c (JStr content) ?s2) = ?s2\<lparr>trace := trace ?s2 @ e3\<rparr>"
        using calculateStats_effect by blast
      have "snd (generateMarkdown_try c folderPath selectedPaths s)
            = snd (calculateStats c (JStr content) ?s2)"
        using f \<open>r1 = Inr paths\<close> Inr unfolding generateMarkdown_try_def first_def [symmetric]
        by (simp add: Let_def split: prod.splits sum.splits)
      then have "snd (generateMarkdown_try c folderPath selectedPaths s)
                 = s\<lparr>trace := trace s @ (e1 @ [AssembleCall folderPath paths] @ e3)\<rparr>"
        using e1 e3 by (simp add: emit_def)
      then show ?thesis by blast
    qed
  qed
qed

text \<open>With an array in the settings, the handler leaves the settings as they were.\<close>

lemma array_patterns_restored:
  assumes "lookup (settings s) ''ignorePatterns'' = JArr ps"
    and "handleGenerateMarkdown c input s = (outcome, s')"
  shows "lookup (settings s') ''ignorePatterns'' = lookup (settings s) ''ignorePatterns''
         \<and> settings s' = settings s"
proof -
  have "settings (snd (handleGenerateMarkdown c input s)) = settings s"
  proof (cases "getProp input ''folderPath''")
    case (Inl err)
    then show ?thesis by (simp add: handleGenerateMarkdown_def)
  next
    case (Inr folderPath)
    obtain selectedPaths where sp: "getProp input ''selectedPaths'' = Inr selectedPaths"
      using getProp_total [OF Inr] by blast
    obtain override where ov: "getProp input ''ignorePatterns'' = Inr override"
      using getProp_total [OF Inr] by blast
    show ?thesis
    proof (cases "truthy folderPath")
      case False
      then show ?thesis using Inr sp ov by (simp add: handleGenerateMarkdown_def)
    next
      case True
      show ?thesis
      proof (cases "truthy override")
        case False
        obtain evs where "snd (generateMarkdown_try c folderPath selectedPaths s)
                          = s\<lparr>trace := trace s @ evs\<rparr>"
          using generateMarkdown_try_effect by blast
        then show ?thesis
          using Inr sp ov True False
          by (auto simp: handleGenerateMarkdown_def restore_patterns_def split: prod.splits)
      next
        case ovt: True
        let ?s1 = "s\<lparr>settings := assign (settings s) ''ignorePatterns'' override\<rparr>"
        obtain evs where "snd (generateMarkdown_try c folderPath selectedPaths ?s1)
                          = ?s1\<lparr>trace := trace ?s1 @ evs\<rparr>"
          using generateMarkdown_try_effect by blast
        then have "settings (snd (handleGenerateMarkdown c input s))
                   = assign (assign (settings s) ''ignorePatterns'' override) ''ignorePatterns'' (JArr ps)"
          using Inr sp ov True ovt assms(1)
          by (auto simp: handleGenerateMarkdown_def restore_patterns_def split: prod.splits)
        also have "\<dots> = assign (settings s) ''ignorePatterns'' (lookup (settings s) ''ignorePatterns'')"
          using assms(1) by (simp add: assign_twice)
        also have "\<dots> = settings s"
          by (rule assign_lookup) (simp add: assms(1))
        finally show ?thesis .
      qed
    qed
  qed
  then show ?thesis using assms(2) by simp
qed

text \<open>
  Claim C4, as the specification states it, holds for every invocation that supplies an
  override, whatever the shared settings hold. The handler saves
  \<^verbatim>\<open>[...this.settings.ignorePatterns]\<close> and puts that copy back: when the settings hold
  the string \<^verbatim>\<open>"ab"\<close> (nothing validates loaded settings), they hold the array
  \<^verbatim>\<open>["a","b"]\<close> after the call.
\<close>

theorem string_patterns_counterexample:
  "lookup (settings (demo_server\<lparr>settings := [(''ignorePatterns'', JStr ''ab'')]\<rparr>))
     ''ignorePatterns'' = JStr ''ab''
   \<and> lookup (settings (snd (handleGenerateMarkdown demo_env (override_call ''/repo'' ''dist'')
             (demo_server\<lparr>settings := [(''ignorePatterns'', JStr ''ab'')]\<rparr>))))
     ''ignorePatterns'' = JArr [JStr ''a'', JStr ''b'']"
  by (simp add: handleGenerateMarkdown_def generateMarkdown_try_def restore_patterns_def
      calculateStats_def countOpenAITokens_def countClaudeTokensApprox_string
      override_call_def demo_env_def demo_server_def emit_def Let_def)

text \<open>
  Claim C4, amended. For every \<^verbatim>\<open>generate_markdown\<close> invocation run in isolation, in
  particular one that supplies an \<^verbatim>\<open>ignorePatterns\<close> override, and for shared settings
  whose \<^verbatim>\<open>ignorePatterns\<close> is not a string (it is an array as \<^verbatim>\<open>main.js\<close> sets it up; any
  other value that is not a string cannot be spread, and the handler then fails before
  it installs anything), the shared settings' \<^verbatim>\<open>ignorePatterns\<close> after the handler
  completes equals its value before the handler started, whether the handler returns a
  result or fails (\<open>outcome\<close> is either); indeed the whole settings object is as before.
\<close>

theorem generate_markdown_restores_patterns:
  assumes "\<forall>t. lookup (settings s) ''ignorePatterns'' \<noteq> JStr t"
    and "handleGenerateMarkdown c input s = (outcome, s')"
  shows "lookup (settings s') ''ignorePatterns'' = lookup (settings s) ''ignorePatterns''
         \<and> settings s' = settings s"
proof (cases "\<exists>ps. lookup (settings s) ''ignorePatterns'' = JArr ps")
  case True
  then obtain ps where "lookup (settings s) ''ignorePatterns'' = JArr ps" by blast
  from array_patterns_restored [OF this assms(2)] show ?thesis .
next
  case False
  then have no_spread: "\<exists>err. spread (lookup (settings s) ''ignorePatterns'') = Inl err"
    using assms(1) by (cases "lookup (settings s) ''ignorePatterns''") auto
  have "settings (snd (handleGenerateMarkdown c input s)) = settings s"
  proof (cases "getProp input ''folderPath''")
    case (Inl err)
    then show ?thesis by (simp add: handleGenerateMarkdown_def)
  next
    case (Inr folderPath)
    obtain selectedPaths where sp: "getProp input ''selectedPaths'' = Inr selectedPaths"
      using getProp_total [OF Inr] by blast
    obtain override where ov: "getProp input ''ignorePatterns'' = Inr override"
      using getProp_total [OF Inr] by blast
    show ?thesis
    proof (cases "truthy folderPath \<and> \<not> truthy override")
      case False
      then show ?thesis using Inr sp ov no_spread
        by (auto simp: handleGenerateMarkdown_def)
    next
      case True
      obtain evs where "snd (generateMarkdown_try c folderPath selectedPaths s)
                        = s\<lparr>trace := trace s @ evs\<rparr>"
        using generateMarkdown_try_effect by blast
      then show ?thesis
        using Inr sp ov True
        by (auto simp: handleGenerateMarkdown_def restore_patterns_def split: prod.splits)
    qed
  qed
  then show ?thesis using assms(2) by simp
qed

text \<open>
  An override \<^verbatim>\<open>["dist"]\<close>: the scan is called with it, and afterwards the settings
  hold the patterns they held before, after success and after a failed scan alike.
\<close>

theorem generate_markdown_restores_patterns_witness:
  "handleGenerateMarkdown demo_env
     (JObj [(''folderPath'', JStr ''/repo''), (''ignorePatterns'', JArr [JStr ''dist''])])
     demo_server
   = (Inr (JObj [(''success'', JBool True), (''markdownContent'', JStr ''## a.js''),
                 (''stats'', JObj [(''characterCount'', JNum 7), (''openAiTokens'', JNum (- 1)),
                                   (''claudeTokens'', JNum 2)])]),
      demo_server\<lparr>trace :=
        [ScanCall (JStr ''/repo'') (JArr [JStr ''dist'']),
         AssembleCall (JStr ''/repo'') (JArr [JStr ''/repo/a.js'', JStr ''/repo/lib/b.js''])]\<rparr>)
   \<and> lookup (settings (snd (handleGenerateMarkdown demo_env
          (JObj [(''folderPath'', JStr ''/repo''), (''ignorePatterns'', JArr [JStr ''dist''])])
          demo_server))) ''ignorePatterns''
       = JArr [JStr ''node_modules'', JStr ''.git'']
   \<and> fst (handleGenerateMarkdown failing_env
          (JObj [(''folderPath'', JStr ''/repo''), (''ignorePatterns'', JArr [JStr ''dist''])])
          demo_server) = Inl (JsError ''ENOENT: no such file or directory'')
   \<and> lookup (settings (snd (handleGenerateMarkdown failing_env
          (JObj [(''folderPath'', JStr ''/repo''), (''ignorePatterns'', JArr [JStr ''dist''])])
          demo_server))) ''ignorePatterns''
       = JArr [JStr ''node_modules'', JStr ''.git'']"
proof -
  let ?input = "JObj [(''folderPath'', JStr ''/repo''), (''ignorePatterns'', JArr [JStr ''dist''])]"
  have before: "lookup (settings demo_server) ''ignorePatterns'' = JArr [JStr ''node_modules'', JStr ''.git'']"
    by (simp add: demo_server_def)
  have ok: "handleGenerateMarkdown demo_env ?input demo_server
   = (Inr (JObj [(''success'', JBool True), (''markdownContent'', JStr ''## a.js''),
                 (''stats'', JObj [(''characterCount'', JNum 7), (''openAiTokens'', JNum (- 1)),
                                   (''claudeTokens'', JNum 2)])]),
      demo_server\<lparr>trace :=
        [ScanCall (JStr ''/repo'') (JArr [JStr ''dist'']),
         AssembleCall (JStr ''/repo'') (JArr [JStr ''/repo/a.js'', JStr ''/repo/lib/b.js''])]\<rparr>)"
    by (simp add: handleGenerateMarkdown_def generateMarkdown_try_def restore_patterns_def
        calculateStats_def countOpenAITokens_def countClaudeTokensApprox_string
        demo_env_def demo_server_def emit_def Let_def)
  have failed: "fst (handleGenerateMarkdown failing_env ?input demo_server)
                = Inl (JsError ''ENOENT: no such file or directory'')"
    by (simp add: handleGenerateMarkdown_def generateMarkdown_try_def restore_patterns_def
        failing_env_def demo_env_def demo_server_def emit_def Let_def)
  have no_string: "\<forall>t. lookup (settings demo_server) ''ignorePatterns'' \<noteq> JStr t"
    by (simp add: before)
  from generate_markdown_restores_patterns [OF no_string ok]
       generate_markdown_restores_patterns
         [where c = failing_env and input = ?input, OF no_string surjective_pairing]
       ok failed before
  show ?thesis by simp
qed


section \<open>Two calls in flight\<close>












text \<open>
  Two calls with overrides \<^verbatim>\<open>["A"]\<close> and \<^verbatim>\<open>["B"]\<close>; the second starts while the first
  awaits its scan, the first completes, then the second (its scan fails).
\<close>

lemma demo_interleaving:
  "run [0, 1, 0, 0, 0, 1, 1, 1]
     ([(demo_env, GmStart (override_call ''/a'' ''A'')),
       (failing_env, GmStart (override_call ''/b'' ''B''))], demo_server, [])
   = ([(demo_env,
        GmDone (Inr (JObj [(''success'', JBool True), (''markdownContent'', JStr ''## a.js''),
                 (''stats'', JObj [(''characterCount'', JNum 7), (''openAiTokens'', JNum (- 1)),
                                   (''claudeTokens'', JNum 2)])]))),
       (failing_env, GmDone (Inl (JsError ''ENOENT: no such file or directory'')))],
      \<lparr>settings = [(''ignorePatterns'', JArr [JStr ''A'']), (''anthropicApiKey'', JStr [])],
       nextId = 1,
       trace = [ScanCall (JStr ''/a'') (JArr [JStr ''A'']),
                ScanCall (JStr ''/b'') (JArr [JStr ''B'']),
                AssembleCall (JStr ''/a'') (JArr [JStr ''/repo/a.js'', JStr ''/repo/lib/b.js''])]\<rparr>,
      [(0, ScanCall (JStr ''/a'') (JArr [JStr ''A''])),
       (1, ScanCall (JStr ''/b'') (JArr [JStr ''B''])),
       (0, AssembleCall (JStr ''/a'') (JArr [JStr ''/repo/a.js'', JStr ''/repo/lib/b.js'']))])"
  by (simp add: sys_step_def override_call_def demo_env_def failing_env_def demo_server_def
      gm_assemble_def emit_def restore_patterns_def calculateStats_def countOpenAITokens_def
      countClaudeTokensApprox_string Let_def)


text \<open>
  What the interleaving damages is the shared settings, not the scans: the second
  call saved the first call's override as the value to restore, and its \<^verbatim>\<open>finally\<close>
  runs last. After both calls the settings hold \<^verbatim>\<open>["A"]\<close>, not the patterns they held
  before.
\<close>

lemma interleaved_restore_leaves_override:
  "lookup (settings demo_server) ''ignorePatterns'' = JArr [JStr ''node_modules'', JStr ''.git'']
   \<and> lookup (settings (fst (snd (run [0, 1, 0, 0, 0, 1, 1, 1]
        ([(demo_env, GmStart (override_call ''/a'' ''A'')),
          (failing_env, GmStart (override_call ''/b'' ''B''))], demo_server, [])))))
        ''ignorePatterns'' = JArr [JStr ''A'']"
proof -
  have "lookup (settings demo_server) ''ignorePatterns''
        = JArr [JStr ''node_modules'', JStr ''.git'']"
    by (simp add: demo_server_def)
  moreover have "lookup (settings (fst (snd (run [0, 1, 0, 0, 0, 1, 1, 1]
        ([(demo_env, GmStart (override_call ''/a'' ''A'')),
          (failing_env, GmStart (override_call ''/b'' ''B''))], demo_server, [])))))
        ''ignorePatterns'' = JArr [JStr ''A'']"
    by (subst demo_interleaving) simp
  ultimately show ?thesis by (rule conjI)
qed

text \<open>A task that runs alone does what \<^verbatim>\<open>handleGenerateMarkdown\<close> does: the tasks are
  the handler, cut at its \<^verbatim>\<open>await\<close>s.\<close>

lemma gm_run_done: "gm_run c n (GmDone r, s) = (GmDone r, s)"
  by (induction n) auto

lemma gm_run_assemble:
  "gm_run c (Suc (Suc n)) (GmAwaitAssemble ign orig pending, s)
   = (case pending of
        Inl err \<Rightarrow> (GmDone (Inl err), restore_patterns ign orig s)
      | Inr markdownContent \<Rightarrow>
          (case calculateStats c (JStr markdownContent) s of
             (Inl err, s3) \<Rightarrow> (GmDone (Inl err), restore_patterns ign orig s3)
           | (Inr stats, s3) \<Rightarrow>
               (GmDone (Inr (JObj [(''success'', JBool True),
                                   (''markdownContent'', JStr markdownContent),
                                   (''stats'', stats)])),
                restore_patterns ign orig s3)))"
  by (auto simp: gm_run_done split: sum.splits prod.splits)

lemma try_then_restore:
  "(case generateMarkdown_try c folderPath selectedPaths s1 of
      (outcome, s2) \<Rightarrow> (GmDone outcome, restore_patterns ign orig s2))
   = (if truthy selectedPaths
      then gm_run c 2 (gm_assemble c folderPath selectedPaths ign orig s1)
      else gm_run c 3
             (GmAwaitScan folderPath ign orig
                (getDirectoryStructure c folderPath (lookup (settings s1) ''ignorePatterns'')),
              emit (ScanCall folderPath (lookup (settings s1) ''ignorePatterns'')) s1))"
proof (cases "truthy selectedPaths")
  case True
  then show ?thesis
    by (auto simp: generateMarkdown_try_def gm_assemble_def gm_run_assemble numeral_2_eq_2
        Let_def split: sum.splits prod.splits)
next
  case False
  then show ?thesis
    by (auto simp: generateMarkdown_try_def gm_assemble_def gm_run_assemble gm_run_done
        numeral_3_eq_3 Let_def split: sum.splits prod.splits)
qed

lemma gm_task_alone:
  "gm_run c 4 (GmStart input, s)
   = (GmDone (fst (handleGenerateMarkdown c input s)), snd (handleGenerateMarkdown c input s))"
proof -
  have four: "gm_run c 4 (GmStart input, s) = gm_run c 3 (gm_step c (GmStart input) s)"
    by (simp add: numeral_eq_Suc)
  show ?thesis
  proof (cases "getProp input ''folderPath''")
    case (Inl err)
    then show ?thesis by (simp add: four handleGenerateMarkdown_def gm_run_done)
  next
    case (Inr folderPath)
    obtain selectedPaths where sp: "getProp input ''selectedPaths'' = Inr selectedPaths"
      using getProp_total [OF Inr] by blast
    obtain ign where ov: "getProp input ''ignorePatterns'' = Inr ign"
      using getProp_total [OF Inr] by blast
    show ?thesis
    proof (cases "truthy folderPath")
      case False
      then show ?thesis using Inr sp ov by (simp add: four handleGenerateMarkdown_def gm_run_done)
    next
      case True
      define installed where "installed =
        (if truthy ign
         then (case spread (lookup (settings s) ''ignorePatterns'') of
                 Inl err \<Rightarrow> Inl err
               | Inr copy \<Rightarrow>
                   Inr (JArr copy, s\<lparr>settings := assign (settings s) ''ignorePatterns'' ign\<rparr>))
         else Inr (JUndefined, s))"
      show ?thesis
      proof (cases installed)
        case (Inl err)
        then show ?thesis
          using Inr sp ov True unfolding installed_def
          by (simp add: four handleGenerateMarkdown_def gm_run_done)
      next
        case ins: (Inr pair)
        obtain orig s1 where pair: "pair = (orig, s1)" by (cases pair) auto
        have h: "handleGenerateMarkdown c input s
                 = (case generateMarkdown_try c folderPath selectedPaths s1 of
                      (outcome, s2) \<Rightarrow> (outcome, restore_patterns ign orig s2))"
          using Inr sp ov True ins pair unfolding installed_def
          by (simp add: handleGenerateMarkdown_def)
        have g: "gm_run c 3 (gm_step c (GmStart input) s)
                 = (if truthy selectedPaths
                    then gm_run c 3 (gm_assemble c folderPath selectedPaths ign orig s1)
                    else gm_run c 3
                      (GmAwaitScan folderPath ign orig
                        (getDirectoryStructure c folderPath (lookup (settings s1) ''ignorePatterns'')),
                       emit (ScanCall folderPath (lookup (settings s1) ''ignorePatterns'')) s1))"
          using Inr sp ov True ins pair unfolding installed_def
          by (simp add: Let_def)
        have three: "gm_run c 3 (gm_assemble c folderPath selectedPaths ign orig s1)
                     = gm_run c 2 (gm_assemble c folderPath selectedPaths ign orig s1)"
          by (auto simp: gm_assemble_def numeral_3_eq_3 numeral_2_eq_2 gm_run_done
              split: sum.splits prod.splits)
        show ?thesis
          unfolding four g three h try_then_restore [symmetric]
          by (simp split: prod.splits)
      qed
    qed
  qed
qed


section \<open>Correlation of responses\<close>

text \<open>
  Claim C1 says that every well-formed request, with an \<^verbatim>\<open>id\<close> that may be 0 or the
  empty string, gets exactly one response whose \<^verbatim>\<open>id\<close> is the request's, and that an
  \<^verbatim>\<open>id\<close> is synthesized only for the push at startup. The code does not do this for
  \<^verbatim>\<open>initialize\<close>: \<^verbatim>\<open>sendInitializeResult\<close> sends to \<^verbatim>\<open>id || this.getNextId()\<close>, so
  after the startup push (which took \<^verbatim>\<open>id\<close> 1) the requests
  \<^verbatim>\<open>{"jsonrpc":"2.0","id":0,"method":"initialize"}\<close> and
  \<^verbatim>\<open>{"jsonrpc":"2.0","id":"","method":"initialize"}\<close> are each answered under the
  synthesized \<^verbatim>\<open>id\<close> 2.
\<close>

theorem initialize_falsy_id_replaced:
  "handleJsonRpcMessage demo_env (request (JNum 0) ''initialize'' JUndefined) (start demo_server)
   = (Inr (), demo_server\<lparr>nextId := 3,
        trace := [Send (JNum 1) (Result initialize_result),
                  Send (JNum 2) (Result initialize_result)]\<rparr>)
   \<and> handleJsonRpcMessage demo_env (request (JStr []) ''initialize'' JUndefined) (start demo_server)
   = (Inr (), demo_server\<lparr>nextId := 3,
        trace := [Send (JNum 1) (Result initialize_result),
                  Send (JNum 2) (Result initialize_result)]\<rparr>)"
  by (simp add: request_def start_def handleJsonRpcMessage_def dispatch_def
      sendInitializeResult_def getNextId_def sendResult_def emit_def demo_server_def)

text \<open>The same for every server and every \<^verbatim>\<open>initialize\<close> request with a falsy \<^verbatim>\<open>id\<close>
  (0, the empty string, \<^verbatim>\<open>null\<close>, \<^verbatim>\<open>false\<close>, or none): the counter is consumed.\<close>

lemma initialize_falsy_id:
  assumes "is_request message ident ''initialize'' params" and "\<not> truthy ident"
  shows "handleJsonRpcMessage c message s
         = (Inr (), s\<lparr>nextId := nextId s + 1,
              trace := trace s @ [Send (JNum (nextId s)) (Result initialize_result)]\<rparr>)"
proof -
  obtain mk where m: "message = JObj mk"
    using is_request_object [OF assms(1)] by blast
  note f = is_request_fields [OF assms(1) [unfolded m]]
  show ?thesis
    using assms(2) f
    by (auto simp: m handleJsonRpcMessage_def dispatch_def sendInitializeResult_def getNextId_def
        sendResult_def emit_def)
qed

text \<open>
  Every other well-formed request is answered as the claim says. The tool handlers
  write no message: they change the server only by calls of collaborators (and
  \<^verbatim>\<open>generate_markdown\<close> by the settings).
\<close>

lemma token_calls_are_calls: "list_all is_token_call evs \<Longrightarrow> list_all is_call evs"
proof (induction evs)
  case Nil
  then show ?case by simp
next
  case (Cons ev evs)
  then show ?case by (cases ev) auto
qed

lemma calculateStats_calls:
  "\<exists>evs. snd (calculateStats c v s) = s\<lparr>trace := trace s @ evs\<rparr> \<and> list_all is_call evs"
  using calculateStats_effect [of c v s] token_calls_are_calls by blast

lemma handleCountTokens_calls:
  "\<exists>evs. snd (handleCountTokens c input s) = s\<lparr>trace := trace s @ evs\<rparr> \<and> list_all is_call evs"
proof -
  have stay: "snd (handleCountTokens c input s) = s \<Longrightarrow> ?thesis"
    by (intro exI [of _ "[]"]) simp
  show ?thesis
  proof (cases "getProp input ''text''")
    case (Inl err)
    then show ?thesis by (intro stay) (simp add: handleCountTokens_def)
  next
    case (Inr v)
    obtain model where model: "getProp input ''model'' = Inr model"
      using getProp_total [OF Inr] by blast
    show ?thesis
    proof (cases "truthy v")
      case False
      then show ?thesis using Inr model by (intro stay) (simp add: handleCountTokens_def)
    next
      case True
      then have "snd (handleCountTokens c input s) = snd (calculateStats c v s)"
        using Inr model by (simp add: handleCountTokens_def split: prod.splits sum.splits)
      then show ?thesis using calculateStats_calls [of c v s] by simp
    qed
  qed
qed

lemma handleGetDirectoryStructure_calls:
  "\<exists>evs. snd (handleGetDirectoryStructure c input s) = s\<lparr>trace := trace s @ evs\<rparr>
         \<and> list_all is_call evs"
proof -
  have stay: "snd (handleGetDirectoryStructure c input s) = s \<Longrightarrow> ?thesis"
    by (intro exI [of _ "[]"]) simp
  show ?thesis
  proof (cases "getProp input ''folderPath''")
    case (Inl err)
    then show ?thesis by (intro stay) (simp add: handleGetDirectoryStructure_def)
  next
    case (Inr folderPath)
    obtain ign where ign: "getProp input ''ignorePatterns'' = Inr ign"
      using getProp_total [OF Inr] by blast
    show ?thesis
    proof (cases "truthy folderPath")
      case False
      then show ?thesis using Inr ign by (intro stay) (simp add: handleGetDirectoryStructure_def)
    next
      case True
      let ?p = "js_or ign (lookup (settings s) ''ignorePatterns'')"
      have "snd (handleGetDirectoryStructure c input s)
            = s\<lparr>trace := trace s @ [ScanCall folderPath ?p]\<rparr>"
        using Inr ign True
        by (simp add: handleGetDirectoryStructure_def Let_def emit_def split: sum.splits)
      then show ?thesis by (intro exI [of _ "[ScanCall folderPath ?p]"]) simp
    qed
  qed
qed

lemma handlePackRemoteRepository_calls:
  "\<exists>evs. snd (handlePackRemoteRepository c input s) = s\<lparr>trace := trace s @ evs\<rparr>
         \<and> list_all is_call evs"
proof -
  have stay: "snd (handlePackRemoteRepository c input s) = s \<Longrightarrow> ?thesis"
    by (intro exI [of _ "[]"]) simp
  show ?thesis
  proof (cases "repoMixIntegration c")
    case None
    then show ?thesis by (intro stay) (simp add: handlePackRemoteRepository_def)
  next
    case (Some rm)
    show ?thesis
    proof (cases "getProp input ''repoUrl''")
      case (Inl err)
      then show ?thesis using Some by (intro stay) (simp add: handlePackRemoteRepository_def)
    next
      case (Inr repoUrl)
      obtain sc where sc: "getProp input ''securityCheck'' = Inr sc"
        using getProp_total [OF Inr] by blast
      obtain st where st: "getProp input ''style'' = Inr st"
        using getProp_total [OF Inr] by blast
      show ?thesis
      proof (cases "truthy repoUrl \<and> (\<exists>shown. to_string (number_to_string c) repoUrl = Inr shown)")
        case False
        then show ?thesis using Some Inr sc st
          by (intro stay) (auto simp: handlePackRemoteRepository_def Let_def split: sum.splits)
      next
        case True
        let ?ev = "PackRemoteCall repoUrl (with_default sc (JBool False))
                     (with_default st (JStr ''markdown''))"
        let ?s1 = "emit ?ev s"
        show ?thesis
        proof (cases "processRemoteRepository rm repoUrl (with_default sc (JBool False))
                        (with_default st (JStr ''markdown''))")
          case (Inl err)
          then have "snd (handlePackRemoteRepository c input s) = s\<lparr>trace := trace s @ [?ev]\<rparr>"
            using Some Inr sc st True
            by (auto simp: handlePackRemoteRepository_def Let_def emit_def)
          then show ?thesis by (intro exI [of _ "[?ev]"]) simp
        next
          case content: (Inr content)
          obtain evs where evs: "snd (calculateStats c (JStr content) ?s1)
                                 = ?s1\<lparr>trace := trace ?s1 @ evs\<rparr>" "list_all is_call evs"
            using calculateStats_calls by blast
          have "snd (handlePackRemoteRepository c input s) = snd (calculateStats c (JStr content) ?s1)"
            using Some Inr sc st True content
            by (auto simp: handlePackRemoteRepository_def Let_def split: sum.splits prod.splits)
          then have "snd (handlePackRemoteRepository c input s)
                     = s\<lparr>trace := trace s @ (?ev # evs)\<rparr>"
            using evs(1) by (simp add: emit_def)
          then show ?thesis using evs(2) by (intro exI [of _ "?ev # evs"]) simp
        qed
      qed
    qed
  qed
qed

lemma handleProcessWithSecurity_calls:
  "\<exists>evs. snd (handleProcessWithSecurity c input s) = s\<lparr>trace := trace s @ evs\<rparr>
         \<and> list_all is_call evs"
proof -
  have stay: "snd (handleProcessWithSecurity c input s) = s \<Longrightarrow> ?thesis"
    by (intro exI [of _ "[]"]) simp
  show ?thesis
  proof (cases "repoMixIntegration c")
    case None
    then show ?thesis by (intro stay) (simp add: handleProcessWithSecurity_def)
  next
    case (Some rm)
    show ?thesis
    proof (cases "getProp input ''folderPath''")
      case (Inl err)
      then show ?thesis using Some by (intro stay) (simp add: handleProcessWithSecurity_def)
    next
      case (Inr folderPath)
      obtain st where st: "getProp input ''style'' = Inr st"
        using getProp_total [OF Inr] by blast
      show ?thesis
      proof (cases "truthy folderPath \<and> (\<exists>shown. to_string (number_to_string c) folderPath = Inr shown)")
        case False
        then show ?thesis using Some Inr st
          by (intro stay) (auto simp: handleProcessWithSecurity_def Let_def split: sum.splits)
      next
        case True
        let ?ev = "PackLocalCall folderPath (with_default st (JStr ''markdown''))"
        let ?s1 = "emit ?ev s"
        show ?thesis
        proof (cases "processLocalRepositoryWithSecurity rm folderPath
                        (with_default st (JStr ''markdown''))")
          case (Inl err)
          then have "snd (handleProcessWithSecurity c input s) = s\<lparr>trace := trace s @ [?ev]\<rparr>"
            using Some Inr st True
            by (auto simp: handleProcessWithSecurity_def Let_def emit_def)
          then show ?thesis by (intro exI [of _ "[?ev]"]) simp
        next
          case content: (Inr content)
          obtain evs where evs: "snd (calculateStats c (JStr content) ?s1)
                                 = ?s1\<lparr>trace := trace ?s1 @ evs\<rparr>" "list_all is_call evs"
            using calculateStats_calls by blast
          have "snd (handleProcessWithSecurity c input s) = snd (calculateStats c (JStr content) ?s1)"
            using Some Inr st True content
            by (auto simp: handleProcessWithSecurity_def Let_def split: sum.splits prod.splits)
          then have "snd (handleProcessWithSecurity c input s)
                     = s\<lparr>trace := trace s @ (?ev # evs)\<rparr>"
            using evs(1) by (simp add: emit_def)
          then show ?thesis using evs(2) by (intro exI [of _ "?ev # evs"]) simp
        qed
      qed
    qed
  qed
qed

lemma generateMarkdown_try_calls:
  "\<exists>evs. snd (generateMarkdown_try c folderPath selectedPaths s) = s\<lparr>trace := trace s @ evs\<rparr>
         \<and> list_all is_call evs"
proof -
  define first where "first =
     (if truthy selectedPaths then (Inr selectedPaths, s)
      else
        (let patterns = lookup (settings s) ''ignorePatterns'';
             s' = emit (ScanCall folderPath patterns) s
         in case getDirectoryStructure c folderPath patterns of
              Inl err \<Rightarrow> (Inl err, s')
            | Inr directoryStructure \<Rightarrow>
                (Inr (JArr (map JStr (collectFilePaths directoryStructure))), s')))"
  obtain r1 s1 where f: "first = (r1, s1)" by (cases first) auto
  have "\<exists>e1. s1 = s\<lparr>trace := trace s @ e1\<rparr> \<and> list_all is_call e1"
  proof (cases "truthy selectedPaths")
    case True
    then have "s1 = s\<lparr>trace := trace s @ []\<rparr>" using f by (simp add: first_def)
    then show ?thesis by (intro exI [of _ "[]"]) simp
  next
    case False
    then have "s1 = s\<lparr>trace := trace s @ [ScanCall folderPath (lookup (settings s) ''ignorePatterns'')]\<rparr>"
      using f by (auto simp: first_def Let_def emit_def split: sum.splits)
    then show ?thesis
      by (intro exI [of _ "[ScanCall folderPath (lookup (settings s) ''ignorePatterns'')]"]) simp
  qed
  then obtain e1 where e1: "s1 = s\<lparr>trace := trace s @ e1\<rparr>" "list_all is_call e1" by blast
  show ?thesis
  proof (cases r1)
    case (Inl err)
    then have "snd (generateMarkdown_try c folderPath selectedPaths s) = s1"
      using f unfolding generateMarkdown_try_def first_def [symmetric] by simp
    then show ?thesis using e1 by blast
  next
    case (Inr paths)
    let ?s2 = "emit (AssembleCall folderPath paths) s1"
    show ?thesis
    proof (cases "generateMarkdownContent c folderPath paths")
      case (Inl err)
      then have "snd (generateMarkdown_try c folderPath selectedPaths s) = ?s2"
        using f Inr unfolding generateMarkdown_try_def first_def [symmetric] by (simp add: Let_def)
      then have "snd (generateMarkdown_try c folderPath selectedPaths s)
                 = s\<lparr>trace := trace s @ (e1 @ [AssembleCall folderPath paths])\<rparr>"
        using e1 by (simp add: emit_def)
      then show ?thesis using e1(2)
        by (intro exI [of _ "e1 @ [AssembleCall folderPath paths]"]) simp
    next
      case (Inr content)
      obtain e3 where e3: "snd (calculateStats c (JStr content) ?s2) = ?s2\<lparr>trace := trace ?s2 @ e3\<rparr>"
        "list_all is_call e3"
        using calculateStats_calls by blast
      have "snd (generateMarkdown_try c folderPath selectedPaths s)
            = snd (calculateStats c (JStr content) ?s2)"
        using f \<open>r1 = Inr paths\<close> Inr unfolding generateMarkdown_try_def first_def [symmetric]
        by (simp add: Let_def split: prod.splits sum.splits)
      then have "snd (generateMarkdown_try c folderPath selectedPaths s)
                 = s\<lparr>trace := trace s @ (e1 @ [AssembleCall folderPath paths] @ e3)\<rparr>"
        using e1 e3 by (simp add: emit_def)
      then show ?thesis using e1(2) e3(2)
        by (intro exI [of _ "e1 @ [AssembleCall folderPath paths] @ e3"]) simp
    qed
  qed
qed

lemma handleGenerateMarkdown_calls:
  "\<exists>cfg evs. snd (handleGenerateMarkdown c input s) = s\<lparr>settings := cfg, trace := trace s @ evs\<rparr>
         \<and> list_all is_call evs"
proof -
  have stay: "snd (handleGenerateMarkdown c input s) = s \<Longrightarrow> ?thesis"
    by (intro exI [of _ "settings s"] exI [of _ "[]"]) simp
  show ?thesis
  proof (cases "getProp input ''folderPath''")
    case (Inl err)
    then show ?thesis by (intro stay) (simp add: handleGenerateMarkdown_def)
  next
    case (Inr folderPath)
    obtain selectedPaths where sp: "getProp input ''selectedPaths'' = Inr selectedPaths"
      using getProp_total [OF Inr] by blast
    obtain ign where ov: "getProp input ''ignorePatterns'' = Inr ign"
      using getProp_total [OF Inr] by blast
    define installed where "installed =
        (if truthy ign
         then (case spread (lookup (settings s) ''ignorePatterns'') of
                 Inl err \<Rightarrow> Inl err
               | Inr copy \<Rightarrow>
                   Inr (JArr copy, s\<lparr>settings := assign (settings s) ''ignorePatterns'' ign\<rparr>))
         else Inr (JUndefined, s))"
    show ?thesis
    proof (cases "truthy folderPath")
      case False
      then show ?thesis using Inr sp ov by (intro stay) (simp add: handleGenerateMarkdown_def)
    next
      case True
      show ?thesis
      proof (cases installed)
        case (Inl err)
        then show ?thesis
          using Inr sp ov True unfolding installed_def
          by (intro stay) (simp add: handleGenerateMarkdown_def)
      next
        case ins: (Inr pair)
        obtain orig s1 where pair: "pair = (orig, s1)" by (cases pair) auto
        have s1: "\<exists>cfg1. s1 = s\<lparr>settings := cfg1\<rparr>"
        proof (cases "truthy ign")
          case True
          then have "s1 = s\<lparr>settings := assign (settings s) ''ignorePatterns'' ign\<rparr>"
            using ins pair unfolding installed_def by (auto split: sum.splits)
          then show ?thesis by blast
        next
          case False
          then have "s1 = s\<lparr>settings := settings s\<rparr>"
            using ins pair unfolding installed_def by simp
          then show ?thesis by blast
        qed
        then obtain cfg1 where cfg1: "s1 = s\<lparr>settings := cfg1\<rparr>" by blast
        obtain evs where evs: "snd (generateMarkdown_try c folderPath selectedPaths s1)
                               = s1\<lparr>trace := trace s1 @ evs\<rparr>" "list_all is_call evs"
          using generateMarkdown_try_calls by blast
        have "snd (handleGenerateMarkdown c input s)
              = restore_patterns ign orig (snd (generateMarkdown_try c folderPath selectedPaths s1))"
          using Inr sp ov True ins pair unfolding installed_def
          by (simp add: handleGenerateMarkdown_def split: prod.splits)
        then have "snd (handleGenerateMarkdown c input s)
                     = s\<lparr>settings := settings (snd (handleGenerateMarkdown c input s)),
                          trace := trace s @ evs\<rparr>"
          using evs(1) cfg1 by (auto simp: restore_patterns_def)
        then show ?thesis using evs(2) by blast
      qed
    qed
  qed
qed

lemma tool_switch_calls:
  assumes "tool_switch c name input s = Some (r, s')"
  shows "\<exists>cfg evs. s' = s\<lparr>settings := cfg, trace := trace s @ evs\<rparr> \<and> list_all is_call evs"
proof -
  have plain: "\<exists>evs. s' = s\<lparr>trace := trace s @ evs\<rparr> \<and> list_all is_call evs \<Longrightarrow> ?thesis"
  proof -
    assume "\<exists>evs. s' = s\<lparr>trace := trace s @ evs\<rparr> \<and> list_all is_call evs"
    then obtain evs where "s' = s\<lparr>settings := settings s, trace := trace s @ evs\<rparr>"
      "list_all is_call evs" by auto
    then show ?thesis by blast
  qed
  consider (gm) "name = JStr ''generate_markdown''" "(r, s') = handleGenerateMarkdown c input s"
    | (pr) "name = JStr ''pack_remote_repository''" "(r, s') = handlePackRemoteRepository c input s"
    | (ps) "name = JStr ''process_with_security''" "(r, s') = handleProcessWithSecurity c input s"
    | (ct) "name = JStr ''count_tokens''" "(r, s') = handleCountTokens c input s"
    | (ds) "name = JStr ''get_directory_structure''" "(r, s') = handleGetDirectoryStructure c input s"
    using assms by (auto simp: tool_switch_def split: if_splits)
  then show ?thesis
  proof cases
    case gm
    then have "s' = snd (handleGenerateMarkdown c input s)" by (metis snd_conv)
    then show ?thesis using handleGenerateMarkdown_calls [of c input s] by simp
  next
    case pr
    then have "s' = snd (handlePackRemoteRepository c input s)" by (metis snd_conv)
    then show ?thesis using handlePackRemoteRepository_calls [of c input s] by (intro plain) simp
  next
    case ps
    then have "s' = snd (handleProcessWithSecurity c input s)" by (metis snd_conv)
    then show ?thesis using handleProcessWithSecurity_calls [of c input s] by (intro plain) simp
  next
    case ct
    then have "s' = snd (handleCountTokens c input s)" by (metis snd_conv)
    then show ?thesis using handleCountTokens_calls [of c input s] by (intro plain) simp
  next
    case ds
    then have "s' = snd (handleGetDirectoryStructure c input s)" by (metis snd_conv)
    then show ?thesis using handleGetDirectoryStructure_calls [of c input s] by (intro plain) simp
  qed
qed

lemma getProp_js_or_object: "\<exists>v. getProp (js_or p (JObj [])) k = Inr v"
  by (cases p) (auto simp: js_or_def)

lemma tool_switch_name:
  assumes "tool_switch c name input s = Some x"
  shows "\<exists>n. name = JStr n"
  using assms by (auto simp: tool_switch_def split: if_splits)

lemma tools_call_one_response:
  assumes "is_request message ident ''tools/call'' p"
  shows "\<exists>cfg evs body. handleJsonRpcMessage c message s
           = (Inr (), s\<lparr>settings := cfg, trace := trace s @ evs @ [Send ident body]\<rparr>)
         \<and> list_all is_call evs"
proof -
  obtain mk where m: "message = JObj mk"
    using is_request_object [OF assms] by blast
  note f = is_request_fields [OF assms [unfolded m]]
  obtain name where name: "getProp (js_or p (JObj [])) ''name'' = Inr name"
    using getProp_js_or_object by blast
  obtain input where input: "getProp (js_or p (JObj [])) ''input'' = Inr input"
    using getProp_js_or_object by blast
  have direct: "handleJsonRpcMessage c message s
                  = (Inr (), s\<lparr>trace := trace s @ [Send ident body]\<rparr>) \<Longrightarrow> ?thesis" for body
  proof -
    assume "handleJsonRpcMessage c message s = (Inr (), s\<lparr>trace := trace s @ [Send ident body]\<rparr>)"
    then have "handleJsonRpcMessage c message s
           = (Inr (), s\<lparr>settings := settings s, trace := trace s @ [] @ [Send ident body]\<rparr>)"
      by simp
    moreover have "list_all is_call []" by simp
    ultimately show ?thesis by blast
  qed
  show ?thesis
  proof (cases "truthy name")
    case False
    then show ?thesis using f name input
      by (intro direct)
         (simp add: m handleJsonRpcMessage_def dispatch_def handleToolsCall_def
            sendErrorResponse_def emit_def)
  next
    case True
    show ?thesis
    proof (cases "tool_switch c name input s")
      case None
      show ?thesis
      proof (cases "to_string (number_to_string c) name")
        case (Inl err)
        then show ?thesis using f name input True None
          by (intro direct)
             (simp add: m handleJsonRpcMessage_def dispatch_def handleToolsCall_def
                sendErrorResponse_def emit_def)
      next
        case (Inr shown)
        then show ?thesis using f name input True None
          by (intro direct)
             (simp add: m handleJsonRpcMessage_def dispatch_def handleToolsCall_def
                sendErrorResponse_def emit_def)
      qed
    next
      case (Some pair)
      obtain r s' where pair: "pair = (r, s')" by (cases pair) auto
      obtain n where n: "name = JStr n" using tool_switch_name [OF Some] by blast
      obtain cfg evs where eff: "s' = s\<lparr>settings := cfg, trace := trace s @ evs\<rparr>"
        "list_all is_call evs"
        using tool_switch_calls [OF Some [unfolded pair]] by blast
      show ?thesis
      proof (cases r)
        case (Inl err)
        then have "handleJsonRpcMessage c message s
           = (Inr (), s\<lparr>settings := cfg, trace := trace s @ evs @
                [Send ident (Failure (- 32603) (''Error handling tool call: '' @ message_of err))]\<rparr>)"
          using f name input True Some pair eff(1) n
          by (simp add: m handleJsonRpcMessage_def dispatch_def handleToolsCall_def
              sendErrorResponse_def emit_def)
        then show ?thesis using eff(2) by blast
      next
        case (Inr result)
        then have "handleJsonRpcMessage c message s
           = (Inr (), s\<lparr>settings := cfg, trace := trace s @ evs @
                [Send ident (Result (JObj [(''result'', result)]))]\<rparr>)"
          using f name input True Some pair eff(1)
          by (simp add: m handleJsonRpcMessage_def dispatch_def handleToolsCall_def
              sendResult_def emit_def)
        then show ?thesis using eff(2) by blast
      qed
    qed
  qed
qed

lemma resources_get_one_response:
  assumes "is_request message ident ''resources/get'' params"
  shows "\<exists>body. handleJsonRpcMessage c message s
           = (Inr (), s\<lparr>trace := trace s @ [Send ident body]\<rparr>)"
proof -
  obtain mk where m: "message = JObj mk"
    using is_request_object [OF assms] by blast
  note f = is_request_fields [OF assms [unfolded m]]
  obtain name where name: "getProp (js_or params (JObj [])) ''name'' = Inr name"
    using getProp_js_or_object by blast
  show ?thesis
  proof (cases "truthy name \<and> name \<noteq> JStr ''settings''")
    case False
    then show ?thesis using f name
      by (auto simp: m handleJsonRpcMessage_def dispatch_def handleResourcesGet_def
          sendErrorResponse_def sendResult_def emit_def Let_def)
  next
    case True
    show ?thesis
    proof (cases "to_string (number_to_string c) name")
      case (Inl err)
      then show ?thesis using f name True
        by (auto simp: m handleJsonRpcMessage_def dispatch_def handleResourcesGet_def
            sendErrorResponse_def emit_def)
    next
      case (Inr shown)
      then show ?thesis using f name True
        by (auto simp: m handleJsonRpcMessage_def dispatch_def handleResourcesGet_def
            sendErrorResponse_def emit_def)
    qed
  qed
qed

text \<open>
  For a request with a method of the supported table, and a truthy \<^verbatim>\<open>id\<close> when the
  method is \<^verbatim>\<open>initialize\<close>, handling the message completes, having called collaborators
  and then written exactly one message, whose \<^verbatim>\<open>id\<close> is the request's.
\<close>

lemma one_response_same_id:
  assumes "is_request message ident method params"
    and "method \<in> set supported_methods"
    and "method = ''initialize'' \<longrightarrow> truthy ident"
  shows "\<exists>cfg evs body. handleJsonRpcMessage c message s
           = (Inr (), s\<lparr>settings := cfg, trace := trace s @ evs @ [Send ident body]\<rparr>)
         \<and> list_all is_call evs"
proof -
  obtain mk where m: "message = JObj mk"
    using is_request_object [OF assms(1)] by blast
  note f = is_request_fields [OF assms(1) [unfolded m]]
  have direct: "handleJsonRpcMessage c message s
                  = (Inr (), s\<lparr>trace := trace s @ [Send ident body]\<rparr>) \<Longrightarrow> ?thesis" for body
  proof -
    assume "handleJsonRpcMessage c message s = (Inr (), s\<lparr>trace := trace s @ [Send ident body]\<rparr>)"
    then have "handleJsonRpcMessage c message s
           = (Inr (), s\<lparr>settings := settings s, trace := trace s @ [] @ [Send ident body]\<rparr>)"
      by simp
    moreover have "list_all is_call []" by simp
    ultimately show ?thesis by blast
  qed
  have "method = ''initialize'' \<or> method = ''shutdown'' \<or> method = ''tools/list''
        \<or> method = ''tools/call'' \<or> method = ''resources/list'' \<or> method = ''resources/get''"
    using assms(2) unfolding supported_methods_def by (simp only: list.set insert_iff empty_iff simp_thms)
  then show ?thesis
  proof (elim disjE)
    assume init: "method = ''initialize''"
    then have "truthy ident" using assms(3) by simp
    then have "ident \<noteq> JUndefined" by auto
    then show ?thesis using f init \<open>truthy ident\<close>
      by (intro direct)
         (simp add: m handleJsonRpcMessage_def dispatch_def sendInitializeResult_def
            sendResult_def emit_def)
  next
    assume shut: "method = ''shutdown''"
    then show ?thesis using f
      by (intro direct) (simp add: m handleJsonRpcMessage_def dispatch_def sendResult_def emit_def)
  next
    assume tl: "method = ''tools/list''"
    then show ?thesis using f
      by (intro direct)
         (simp add: m handleJsonRpcMessage_def dispatch_def handleToolsList_def
            sendResult_def emit_def)
  next
    assume tc: "method = ''tools/call''"
    then show ?thesis using tools_call_one_response assms(1) by blast
  next
    assume rl: "method = ''resources/list''"
    then show ?thesis using f
      by (intro direct)
         (simp add: m handleJsonRpcMessage_def dispatch_def handleResourcesList_def
            sendResult_def emit_def)
  next
    assume rg: "method = ''resources/get''"
    then obtain body where "handleJsonRpcMessage c message s
           = (Inr (), s\<lparr>trace := trace s @ [Send ident body]\<rparr>)"
      using resources_get_one_response assms(1) by blast
    then show ?thesis by (rule direct)
  qed
qed

lemma sent_calls: "list_all is_call evs \<Longrightarrow> sent evs = []"
proof (induction evs)
  case Nil
  then show ?case by simp
next
  case (Cons ev evs)
  then show ?case by (cases ev) auto
qed

lemma exactly_one_response:
  assumes "is_request message ident method params"
    and "method \<in> set supported_methods"
    and "method = ''initialize'' \<longrightarrow> truthy ident"
  shows "\<exists>body. sent (trace (snd (handleJsonRpcMessage c message s)))
                 = sent (trace s) @ [(ident, body)]"
proof -
  obtain cfg evs body where "handleJsonRpcMessage c message s
           = (Inr (), s\<lparr>settings := cfg, trace := trace s @ evs @ [Send ident body]\<rparr>)"
    "list_all is_call evs"
    using one_response_same_id [OF assms] by blast
  then have "sent (trace (snd (handleJsonRpcMessage c message s)))
             = sent (trace s) @ [(ident, body)]"
    by (simp add: sent_append sent_calls)
  then show ?thesis by blast
qed

end
